theory Spec2Isabelle
  imports Main "HOL-Library.Word" "HOL-Library.List_Lexorder"
begin

section \<open>Bytes and the raw encoder\<close>

text \<open>
  The cxo code serialises through \<^verbatim>\<open>github.com/skycoin/skycoin/src/cipher/encoder\<close>,
  a library outside this repository.  Its wire format is the one the specification
  fixes as a given primitive: fixed-width integers (little endian), a 4-byte count in
  front of strings, byte sequences and slices, no count in front of fixed-size arrays,
  and the fields of a struct one after the other.  A deserialiser reads a prefix of its
  input, fails when the input is too short, and reports how far it read.

  Go's \<^verbatim>\<open>int\<close> (lengths, offsets and sizes) is modelled as \<open>nat\<close>: every such value
  in the functions below is a length, a decoded \<^verbatim>\<open>uint32\<close> or a sum or product of
  a few of them, so it is never negative and stays below \<open>2 ^ 63\<close>.
\<close>

type_synonym byte = "8 word"

datatype error =
    ErrEmptyMessage
  | ErrInvalidMsgType nat
  | ErrIncomplieDecoding
  | ErrDeserialize
  | ErrInvalidEncodedSchema
  | ErrInvalidSchemaOrData
  | ErrInvalidSchema
  | ErrInvalidReferenceType nat
  | ErrMissingSchema "byte list"
  | ErrTag string
  | Panic string
  | PanicErr error
  | PanicNilDereference

text \<open>Modelled from the spec: fixed-width integers of the raw encoder, least
  significant byte first; \<open>le_bytes n v\<close> are the \<open>n\<close> low bytes of \<open>v\<close>.\<close>

fun le_bytes :: "nat \<Rightarrow> nat \<Rightarrow> byte list" where
  "le_bytes 0 v = []"
| "le_bytes (Suc n) v = of_nat (v mod 256) # le_bytes n (v div 256)"

fun le_nat :: "byte list \<Rightarrow> nat" where
  "le_nat [] = 0"
| "le_nat (b # bs) = unat b + 256 * le_nat bs"

text \<open>Modelled from the spec: \<^verbatim>\<open>uint32(v)\<close> written as four bytes.\<close>

definition put_uint32 :: "nat \<Rightarrow> byte list" where
  "put_uint32 v = le_bytes 4 (v mod 2 ^ 32)"

text \<open>Modelled from the spec: a deserialiser step returns the value read and the
  bytes left, or the encoder's error when the input is too short.\<close>

definition get_uint32 :: "byte list \<Rightarrow> error + nat \<times> byte list" where
  "get_uint32 p = (if length p < 4 then Inl ErrDeserialize
                   else Inr (le_nat (take 4 p), drop 4 p))"

definition get_fixed :: "nat \<Rightarrow> byte list \<Rightarrow> error + byte list \<times> byte list" where
  "get_fixed n p = (if length p < n then Inl ErrDeserialize
                    else Inr (take n p, drop n p))"

text \<open>Modelled from the spec: a string or byte sequence is its 4-byte length and
  then its bytes.\<close>

definition put_bytes :: "byte list \<Rightarrow> byte list" where
  "put_bytes bs = put_uint32 (length bs) @ bs"

definition get_bytes :: "byte list \<Rightarrow> error + byte list \<times> byte list" where
  "get_bytes p = (case get_uint32 p of
                    Inl e \<Rightarrow> Inl e
                  | Inr (l, r) \<Rightarrow> get_fixed l r)"

section \<open>Message framing (node/messages.go)\<close>

text \<open>
  The nine message structs.  \<^verbatim>\<open>cipher.PubKey\<close> is \<^verbatim>\<open>[33]byte\<close>,
  \<^verbatim>\<open>skyobject.Reference\<close> and \<^verbatim>\<open>skyobject.RegistryReference\<close> are
  \<^verbatim>\<open>[32]byte\<close> digests; \<^verbatim>\<open>data.RootPack\<close> is declared in a package that is
  not part of the sources at hand, so its type is the parameter \<open>'rp\<close> and its raw
  encoding is passed to \<open>Encode\<close> and \<open>Decode\<close>.
\<close>

datatype 'rp Msg =
    PingMsg
  | PongMsg
  | JoinFeedMsg "byte list"
  | LeaveFeedMsg "byte list"
  | RootMsg "byte list" 'rp
  | RequestDataMsg "byte list"
  | DataMsg "byte list"
  | RequestRegistryMsg "byte list"
  | RegistryMsg "byte list"

definition PubKey_len :: nat where "PubKey_len = 33"
definition SHA256_len :: nat where "SHA256_len = 32"

text \<open>The values a Go variable of the message type can hold: the fixed arrays have
  their length, and a byte slice has a length the 4-byte count can carry.\<close>

fun msg_ok :: "'rp Msg \<Rightarrow> bool" where
  "msg_ok PingMsg = True"
| "msg_ok PongMsg = True"
| "msg_ok (JoinFeedMsg feed) = (length feed = PubKey_len)"
| "msg_ok (LeaveFeedMsg feed) = (length feed = PubKey_len)"
| "msg_ok (RootMsg feed rp) = (length feed = PubKey_len)"
| "msg_ok (RequestDataMsg r) = (length r = SHA256_len)"
| "msg_ok (DataMsg d) = (length d < 2 ^ 32)"
| "msg_ok (RequestRegistryMsg r) = (length r = SHA256_len)"
| "msg_ok (RegistryMsg d) = (length d < 2 ^ 32)"

fun MsgType :: "'rp Msg \<Rightarrow> nat" where
  "MsgType PingMsg = 1"
| "MsgType PongMsg = 2"
| "MsgType (JoinFeedMsg _) = 3"
| "MsgType (LeaveFeedMsg _) = 4"
| "MsgType (RootMsg _ _) = 5"
| "MsgType (RequestDataMsg _) = 6"
| "MsgType (DataMsg _) = 7"
| "MsgType (RequestRegistryMsg _) = 8"
| "MsgType (RegistryMsg _) = 9"

text \<open>\<^verbatim>\<open>len(forwardRegistry)\<close>: the table has the indices 0 to 9.\<close>

definition forwardRegistry_len :: nat where "forwardRegistry_len = 10"

text \<open>Modelled from the spec: \<^verbatim>\<open>encoder.Serialize\<close> on a message struct, field by
  field.\<close>

fun Serialize_msg :: "('rp \<Rightarrow> byte list) \<Rightarrow> 'rp Msg \<Rightarrow> byte list" where
  "Serialize_msg enc PingMsg = []"
| "Serialize_msg enc PongMsg = []"
| "Serialize_msg enc (JoinFeedMsg feed) = feed"
| "Serialize_msg enc (LeaveFeedMsg feed) = feed"
| "Serialize_msg enc (RootMsg feed rp) = feed @ enc rp"
| "Serialize_msg enc (RequestDataMsg r) = r"
| "Serialize_msg enc (DataMsg d) = put_bytes d"
| "Serialize_msg enc (RequestRegistryMsg r) = r"
| "Serialize_msg enc (RegistryMsg d) = put_bytes d"

text \<open>Modelled from the spec: \<^verbatim>\<open>encoder.DeserializeRawToValue\<close> into a fresh value
  of the type \<^verbatim>\<open>forwardRegistry[mt]\<close>; the result is the message and the number of
  bytes read.\<close>

definition consumed :: "byte list \<Rightarrow> byte list \<Rightarrow> nat" where
  "consumed p rest = length p - length rest"

definition DeserializeRawToValue ::
  "(byte list \<Rightarrow> error + 'rp \<times> byte list) \<Rightarrow> nat \<Rightarrow> byte list \<Rightarrow> error + 'rp Msg \<times> nat" where
  "DeserializeRawToValue dec mt p =
     (if mt = 1 then Inr (PingMsg, 0)
      else if mt = 2 then Inr (PongMsg, 0)
      else if mt = 3 then
        (case get_fixed PubKey_len p of Inl e \<Rightarrow> Inl e
         | Inr (feed, r) \<Rightarrow> Inr (JoinFeedMsg feed, consumed p r))
      else if mt = 4 then
        (case get_fixed PubKey_len p of Inl e \<Rightarrow> Inl e
         | Inr (feed, r) \<Rightarrow> Inr (LeaveFeedMsg feed, consumed p r))
      else if mt = 5 then
        (case get_fixed PubKey_len p of Inl e \<Rightarrow> Inl e
         | Inr (feed, r) \<Rightarrow>
            (case dec r of Inl e \<Rightarrow> Inl e
             | Inr (rp, r') \<Rightarrow> Inr (RootMsg feed rp, consumed p r')))
      else if mt = 6 then
        (case get_fixed SHA256_len p of Inl e \<Rightarrow> Inl e
         | Inr (h, r) \<Rightarrow> Inr (RequestDataMsg h, consumed p r))
      else if mt = 7 then
        (case get_bytes p of Inl e \<Rightarrow> Inl e
         | Inr (d, r) \<Rightarrow> Inr (DataMsg d, consumed p r))
      else if mt = 8 then
        (case get_fixed SHA256_len p of Inl e \<Rightarrow> Inl e
         | Inr (h, r) \<Rightarrow> Inr (RequestRegistryMsg h, consumed p r))
      else
        (case get_bytes p of Inl e \<Rightarrow> Inl e
         | Inr (d, r) \<Rightarrow> Inr (RegistryMsg d, consumed p r)))"

text \<open>\<^verbatim>\<open>Encode\<close>: the type byte, then the serialised message.\<close>

definition Encode :: "('rp \<Rightarrow> byte list) \<Rightarrow> 'rp Msg \<Rightarrow> byte list" where
  "Encode enc msg = of_nat (MsgType msg) # Serialize_msg enc msg"

text \<open>\<^verbatim>\<open>Decode\<close>.  \<^verbatim>\<open>mt <= 0\<close> on the unsigned \<^verbatim>\<open>MsgType\<close> is \<open>mt = 0\<close>.\<close>

definition Decode ::
  "(byte list \<Rightarrow> error + 'rp \<times> byte list) \<Rightarrow> byte list \<Rightarrow> error + 'rp Msg" where
  "Decode dec p =
     (if length p < 1 then Inl ErrEmptyMessage
      else let mt = unat (hd p) in
        if mt \<le> 0 \<or> mt \<ge> forwardRegistry_len then Inl (ErrInvalidMsgType mt)
        else (case DeserializeRawToValue dec mt (tl p) of
                Inl e \<Rightarrow> Inl e
              | Inr (msg, n) \<Rightarrow>
                  if n + 1 \<noteq> length p then Inl ErrIncomplieDecoding
                  else Inr msg))"

text \<open>What is required of the raw encoding of \<^verbatim>\<open>data.RootPack\<close>: the deserialiser
  reads back what the serialiser wrote and leaves the bytes that follow.\<close>

definition rp_codec :: "('rp \<Rightarrow> byte list) \<Rightarrow> (byte list \<Rightarrow> error + 'rp \<times> byte list) \<Rightarrow> bool" where
  "rp_codec enc dec = (\<forall>x r. dec (enc x @ r) = Inr (x, r))"

text \<open>A stand-in root pack for concrete runs: a bare \<^verbatim>\<open>uint64\<close> sequence number.\<close>

definition enc_seq :: "64 word \<Rightarrow> byte list" where
  "enc_seq w = le_bytes 8 (unat w)"

definition dec_seq :: "byte list \<Rightarrow> error + 64 word \<times> byte list" where
  "dec_seq p = (if length p < 8 then Inl ErrDeserialize
                else Inr (of_nat (le_nat (take 8 p)), drop 8 p))"

subsection \<open>The raw encoder reads back what it wrote\<close>

lemma length_le_bytes: "length (le_bytes n v) = n"
  by (induction n arbitrary: v) auto

lemma le_nat_le_bytes: "le_nat (le_bytes n v) = v mod 256 ^ n"
proof (induction n arbitrary: v)
  case 0
  show ?case by simp
next
  case (Suc n)
  have "unat (of_nat (v mod 256) :: byte) = v mod 256"
    by (simp add: unat_of_nat)
  then show ?case using Suc[of "v div 256"]
    by (simp add: mod_mult2_eq)
qed

lemma length_put_uint32: "length (put_uint32 v) = 4"
  by (simp add: put_uint32_def length_le_bytes)

lemma get_uint32_put: "get_uint32 (put_uint32 v @ r) = Inr (v mod 2 ^ 32, r)"
  by (simp add: get_uint32_def length_put_uint32) (simp add: put_uint32_def le_nat_le_bytes)

lemma get_fixed_append: "length bs = n \<Longrightarrow> get_fixed n (bs @ r) = Inr (bs, r)"
  by (simp add: get_fixed_def)

lemma get_bytes_put: "length bs < 2 ^ 32 \<Longrightarrow> get_bytes (put_bytes bs @ r) = Inr (bs, r)"
  by (simp add: get_bytes_def put_bytes_def get_uint32_put get_fixed_append)

lemma rp_codec_seq: "rp_codec enc_seq dec_seq"
proof -
  have "of_nat (unat x mod 2 ^ 64) = x" for x :: "64 word"
    using unsigned_less[of x, where 'a = nat] by simp
  then show ?thesis
    unfolding rp_codec_def enc_seq_def dec_seq_def
    by (simp add: length_le_bytes le_nat_le_bytes)
qed

subsection \<open>Decoding a message\<close>

lemma unat_MsgType: "unat (of_nat (MsgType m) :: byte) = MsgType m"
  by (cases m) (simp_all add: unat_of_nat)

lemma MsgType_range: "0 < MsgType m \<and> MsgType m < forwardRegistry_len"
  by (cases m) (simp_all add: forwardRegistry_len_def)

lemma Deserialize_Serialize:
  assumes "rp_codec enc dec" "msg_ok m"
  shows "DeserializeRawToValue dec (MsgType m) (Serialize_msg enc m @ r)
         = Inr (m, length (Serialize_msg enc m))"
  using assms
  by (cases m)
     (simp_all add: DeserializeRawToValue_def get_fixed_append get_bytes_put consumed_def
        rp_codec_def)

text \<open>
  C4.  Decoding the encoding of a message gives the message back, for each of the nine
  variants.  The message is a value of its Go type (\<open>msg_ok\<close>: the fixed arrays have
  their length and the byte slices fit the 4-byte count of the wire format), and the
  raw encoder reads back the root pack it wrote (\<open>rp_codec\<close>).
\<close>

theorem Decode_Encode:
  assumes "rp_codec enc dec" and "msg_ok m"
  shows "Decode dec (Encode enc m) = Inr m"
  using Deserialize_Serialize[OF assms, of "[]"] MsgType_range[of m]
  by (simp add: Decode_def Encode_def unat_MsgType Let_def)

theorem Decode_Encode_witness:
  "rp_codec enc_seq dec_seq \<and> msg_ok (RootMsg (replicate 33 7) (5 :: 64 word))
   \<and> Decode dec_seq (Encode enc_seq (RootMsg (replicate 33 7) 5)) = Inr (RootMsg (replicate 33 7) 5)"
proof -
  have ok: "msg_ok (RootMsg (replicate 33 7) (5 :: 64 word))"
    by (simp add: PubKey_len_def)
  show ?thesis
    using Decode_Encode[OF rp_codec_seq ok] rp_codec_seq ok by simp
qed

text \<open>
  C5.  The three reported failures of \<open>Decode\<close>: the empty buffer is the empty-message
  error; a first byte that is 0 or at least the length of the table is the
  invalid-message-type error (carrying that byte); the encoding of a message followed
  by one more byte is the incomplete-decoding error.  Each is a returned error value.
\<close>

theorem Decode_failures:
  "Decode dec [] = Inl ErrEmptyMessage
   \<and> (unat b = 0 \<or> forwardRegistry_len \<le> unat b
        \<longrightarrow> Decode dec (b # rest) = Inl (ErrInvalidMsgType (unat b)))
   \<and> (rp_codec enc dec \<and> msg_ok m
        \<longrightarrow> Decode dec (Encode enc m @ [x]) = Inl ErrIncomplieDecoding)"
proof (intro conjI impI)
  show "Decode dec [] = Inl ErrEmptyMessage"
    by (simp add: Decode_def)
next
  assume "unat b = 0 \<or> forwardRegistry_len \<le> unat b"
  then show "Decode dec (b # rest) = Inl (ErrInvalidMsgType (unat b))"
    by (auto simp add: Decode_def Let_def)
next
  assume a: "rp_codec enc dec \<and> msg_ok m"
  then have c: "rp_codec enc dec" and k: "msg_ok m" by simp_all
  show "Decode dec (Encode enc m @ [x]) = Inl ErrIncomplieDecoding"
    using Deserialize_Serialize[OF c k, of "[x]"] MsgType_range[of m]
    by (simp add: Decode_def Encode_def unat_MsgType Let_def)
qed

theorem Decode_failures_witness:
  "Decode dec_seq [] = Inl ErrEmptyMessage
   \<and> forwardRegistry_len \<le> unat (200 :: byte)
   \<and> Decode dec_seq [200, 1, 2] = Inl (ErrInvalidMsgType 200)
   \<and> rp_codec enc_seq dec_seq \<and> msg_ok (DataMsg [1, 2, 3] :: 64 word Msg)
   \<and> Decode dec_seq (Encode enc_seq (DataMsg [1, 2, 3]) @ [9]) = Inl ErrIncomplieDecoding"
proof -
  have r: "forwardRegistry_len \<le> unat (200 :: byte)"
    by (simp add: forwardRegistry_len_def)
  have ok: "msg_ok (DataMsg [1, 2, 3] :: 64 word Msg)"
    by simp
  show ?thesis
    using Decode_failures[of dec_seq 200 "[1, 2]" enc_seq "DataMsg [1, 2, 3]" 9]
      rp_codec_seq r ok
    by simp
qed

section \<open>The schema model\<close>

text \<open>
  \<^verbatim>\<open>reflect.Kind\<close> is an unsigned integer; the kinds the code names, with the numbers
  of Go's \<^verbatim>\<open>reflect\<close> package.
\<close>

type_synonym Kind = nat

definition reflect_Bool :: Kind where "reflect_Bool = 1"
definition reflect_Int8 :: Kind where "reflect_Int8 = 3"
definition reflect_Int16 :: Kind where "reflect_Int16 = 4"
definition reflect_Int32 :: Kind where "reflect_Int32 = 5"
definition reflect_Int64 :: Kind where "reflect_Int64 = 6"
definition reflect_Uint8 :: Kind where "reflect_Uint8 = 8"
definition reflect_Uint16 :: Kind where "reflect_Uint16 = 9"
definition reflect_Uint32 :: Kind where "reflect_Uint32 = 10"
definition reflect_Uint64 :: Kind where "reflect_Uint64 = 11"
definition reflect_Float32 :: Kind where "reflect_Float32 = 13"
definition reflect_Float64 :: Kind where "reflect_Float64 = 14"
definition reflect_Array :: Kind where "reflect_Array = 17"
definition reflect_Ptr :: Kind where "reflect_Ptr = 22"
definition reflect_Slice :: Kind where "reflect_Slice = 23"
definition reflect_String :: Kind where "reflect_String = 24"
definition reflect_Struct :: Kind where "reflect_Struct = 25"

lemmas reflect_kinds =
  reflect_Bool_def reflect_Int8_def reflect_Int16_def reflect_Int32_def reflect_Int64_def
  reflect_Uint8_def reflect_Uint16_def reflect_Uint32_def reflect_Uint64_def
  reflect_Float32_def reflect_Float64_def reflect_Array_def reflect_Ptr_def
  reflect_Slice_def reflect_String_def reflect_Struct_def

text \<open>Modelled from the spec: the reference-type discriminator, "not a reference" and
  the three reference kinds Single, Slice and Dynamic.  The constants are declared in
  a file that is not among the sources; they are numbered in this order.\<close>

type_synonym ReferenceType = nat

definition ReferenceTypeNone :: ReferenceType where "ReferenceTypeNone = 0"
definition ReferenceTypeSingle :: ReferenceType where "ReferenceTypeSingle = 1"
definition ReferenceTypeSlice :: ReferenceType where "ReferenceTypeSlice = 2"
definition ReferenceTypeDynamic :: ReferenceType where "ReferenceTypeDynamic = 3"

lemmas reference_types =
  ReferenceTypeNone_def ReferenceTypeSingle_def ReferenceTypeSlice_def ReferenceTypeDynamic_def

text \<open>
  The five struct types behind the \<^verbatim>\<open>Schema\<close> interface, as the code fills them:
  \<^verbatim>\<open>schema{ref, kind, name}\<close>, \<^verbatim>\<open>sliceSchema{schema, elem}\<close>,
  \<^verbatim>\<open>arraySchema{schema, length, elem}\<close>, \<^verbatim>\<open>structSchema{schema, fields}\<close>,
  \<^verbatim>\<open>referenceSchema{schema, typ, elem}\<close>, and \<^verbatim>\<open>field{name, tag, schema}\<close>.
  The \<^verbatim>\<open>ref\<close> of a schema is always written as the zero \<^verbatim>\<open>SchemaRef{}\<close>
  and is left out; no code sets the name of a reference schema, so it has none; the
  \<^verbatim>\<open>elem\<close> of a reference schema is \<^verbatim>\<open>nil\<close> for a Dynamic reference.  A value
  of this type is a schema whose objects are not shared: what \<^verbatim>\<open>getSchema\<close> and
  \<^verbatim>\<open>decodeSchema\<close> build.
\<close>

datatype Schema =
    schema Kind "byte list"
  | sliceSchema Kind "byte list" Schema
  | arraySchema Kind "byte list" nat Schema
  | structSchema Kind "byte list" "Field list"
  | referenceSchema Kind ReferenceType "Schema option"
and Field = field "byte list" "byte list" Schema

text \<open>Modelled from the spec: the methods of \<^verbatim>\<open>Schema\<close> and \<^verbatim>\<open>Field\<close> that the
  code calls.  Their bodies are not among the sources; each returns the part of the
  schema model it is named after (every variant carries a kind and an optional name, an
  array a length, a slice or array an element, a struct its fields, a reference its
  reference kind), and the zero value where the variant has no such part.\<close>

fun IsReference :: "Schema \<Rightarrow> bool" where
  "IsReference (referenceSchema k t e) = True"
| "IsReference _ = False"

fun ReferenceType :: "Schema \<Rightarrow> ReferenceType" where
  "ReferenceType (referenceSchema k t e) = t"
| "ReferenceType _ = ReferenceTypeNone"

fun Kind :: "Schema \<Rightarrow> Kind" where
  "Kind (schema k n) = k"
| "Kind (sliceSchema k n e) = k"
| "Kind (arraySchema k n l e) = k"
| "Kind (structSchema k n fs) = k"
| "Kind (referenceSchema k t e) = k"

fun RawName :: "Schema \<Rightarrow> byte list" where
  "RawName (schema k n) = n"
| "RawName (sliceSchema k n e) = n"
| "RawName (arraySchema k n l e) = n"
| "RawName (structSchema k n fs) = n"
| "RawName (referenceSchema k t e) = []"

definition IsRegistered :: "Schema \<Rightarrow> bool" where
  "IsRegistered s = (0 < length (RawName s))"

fun Elem :: "Schema \<Rightarrow> Schema option" where
  "Elem (sliceSchema k n e) = Some e"
| "Elem (arraySchema k n l e) = Some e"
| "Elem (referenceSchema k t e) = e"
| "Elem _ = None"

fun Len :: "Schema \<Rightarrow> nat" where
  "Len (arraySchema k n l e) = l"
| "Len _ = 0"

fun Fields :: "Schema \<Rightarrow> Field list" where
  "Fields (structSchema k n fs) = fs"
| "Fields _ = []"

fun Field_Name :: "Field \<Rightarrow> byte list" where
  "Field_Name (field n t s) = n"

fun Field_Tag :: "Field \<Rightarrow> byte list" where
  "Field_Tag (field n t s) = t"

fun Field_Schema :: "Field \<Rightarrow> Schema" where
  "Field_Schema (field n t s) = s"

section \<open>The schema codec (decoding)\<close>

text \<open>\<^verbatim>\<open>if err != nil { return }\<close> after a call.\<close>

definition bindE :: "error + 'a \<Rightarrow> ('a \<Rightarrow> error + 'b) \<Rightarrow> error + 'b" where
  "bindE m f = (case m of Inl e \<Rightarrow> Inl e | Inr x \<Rightarrow> f x)"

text \<open>The two wire structs, as \<^verbatim>\<open>decodeSchema\<close> lists them.\<close>

record encodedSchema =
  es_ReferenceType :: nat
  es_Kind :: nat
  es_Name :: "byte list"
  es_Len :: nat
  es_Fields :: "byte list list"
  es_Elem :: "byte list"

record encodedField =
  ef_Name :: "byte list"
  ef_Tag :: "byte list"
  ef_Schema :: "byte list"

text \<open>Modelled from the spec: \<^verbatim>\<open>encoder.DeserializeRaw\<close> into the two structs,
  field by field; a slice of byte sequences is its 4-byte count and then the
  sequences.\<close>

fun get_many :: "nat \<Rightarrow> byte list \<Rightarrow> error + byte list list \<times> byte list" where
  "get_many 0 p = Inr ([], p)"
| "get_many (Suc n) p =
     (case get_bytes p of
        Inl e \<Rightarrow> Inl e
      | Inr (x, r) \<Rightarrow>
          (case get_many n r of
             Inl e \<Rightarrow> Inl e
           | Inr (xs, r') \<Rightarrow> Inr (x # xs, r')))"

definition get_bytes_list :: "byte list \<Rightarrow> error + byte list list \<times> byte list" where
  "get_bytes_list p = bindE (get_uint32 p) (\<lambda>(n, r). get_many n r)"

definition DeserializeRaw_encodedSchema :: "byte list \<Rightarrow> error + encodedSchema" where
  "DeserializeRaw_encodedSchema b =
     bindE (get_uint32 b) (\<lambda>(rt, b1).
     bindE (get_uint32 b1) (\<lambda>(k, b2).
     bindE (get_bytes b2) (\<lambda>(nm, b3).
     bindE (get_uint32 b3) (\<lambda>(ln, b4).
     bindE (get_bytes_list b4) (\<lambda>(fs, b5).
     bindE (get_bytes b5) (\<lambda>(el, b6).
       Inr \<lparr>es_ReferenceType = rt, es_Kind = k, es_Name = nm, es_Len = ln,
            es_Fields = fs, es_Elem = el\<rparr>))))))"

definition DeserializeRaw_encodedField :: "byte list \<Rightarrow> error + encodedField" where
  "DeserializeRaw_encodedField b =
     bindE (get_bytes b) (\<lambda>(nm, b1).
     bindE (get_bytes b1) (\<lambda>(tg, b2).
     bindE (get_bytes b2) (\<lambda>(sc, b3).
       Inr \<lparr>ef_Name = nm, ef_Tag = tg, ef_Schema = sc\<rparr>)))"

lemma bindE_Inr: "bindE m f = Inr y \<longleftrightarrow> (\<exists>x. m = Inr x \<and> f x = Inr y)"
  by (cases m) (simp_all add: bindE_def)

lemma bindE_simps [simp]: "bindE (Inl e) f = Inl e" "bindE (Inr x) f = f x"
  by (simp_all add: bindE_def)

text \<open>What a deserialiser step returns is shorter than what it was given: the
  recursion of \<open>decodeSchema\<close> ends.\<close>

lemma get_uint32_rest: "get_uint32 p = Inr (v, r) \<Longrightarrow> length p = length r + 4"
  by (auto simp: get_uint32_def split: if_splits)

lemma get_fixed_rest:
  "get_fixed n p = Inr (x, r) \<Longrightarrow> length p = length x + length r \<and> length x = n"
  by (auto simp: get_fixed_def split: if_splits)

lemma get_bytes_rest: "get_bytes p = Inr (x, r) \<Longrightarrow> length p = length x + length r + 4"
  by (auto simp: get_bytes_def split: sum.splits dest!: get_uint32_rest get_fixed_rest)

lemma get_many_rest:
  "get_many n p = Inr (xs, r) \<Longrightarrow> length p = (\<Sum>x\<leftarrow>xs. length x + 4) + length r"
proof (induction n arbitrary: p xs)
  case 0
  then show ?case by simp
next
  case (Suc n)
  then show ?case
    by (fastforce split: sum.splits dest!: get_bytes_rest)
qed

lemma get_bytes_list_rest:
  "get_bytes_list p = Inr (xs, r) \<Longrightarrow> length p = (\<Sum>x\<leftarrow>xs. length x + 4) + length r + 4"
  by (auto simp: get_bytes_list_def bindE_Inr dest!: get_uint32_rest get_many_rest)

lemma encodedSchema_length:
  assumes "DeserializeRaw_encodedSchema b = Inr x"
  shows "(\<Sum>f\<leftarrow>es_Fields x. length f + 4) + length (es_Elem x) + 20 \<le> length b"
  using assms unfolding DeserializeRaw_encodedSchema_def
  by (auto simp: bindE_Inr dest!: get_uint32_rest get_bytes_rest get_bytes_list_rest)

lemma encodedField_length:
  assumes "DeserializeRaw_encodedField b = Inr x"
  shows "length (ef_Schema x) + 12 \<le> length b"
  using assms unfolding DeserializeRaw_encodedField_def
  by (auto simp: bindE_Inr dest!: get_bytes_rest)

lemma sum_list_fields_le:
  "(\<Sum>f\<leftarrow>fs. Suc (length f)) \<le> (\<Sum>f\<leftarrow>fs. length (f :: byte list) + 4)"
  by (induction fs) auto

text \<open>
  \<^verbatim>\<open>decodeSchema\<close> and \<^verbatim>\<open>decodeField\<close>; \<open>decodeFields\<close> is the loop over
  \<^verbatim>\<open>x.Fields\<close> in the struct case.  On every error return the result \<^verbatim>\<open>s\<close> is
  still \<^verbatim>\<open>nil\<close>, so the result is the error or the schema.
\<close>

function decodeSchema :: "byte list \<Rightarrow> error + Schema"
  and decodeFields :: "byte list list \<Rightarrow> error + Field list"
  and decodeField :: "byte list \<Rightarrow> error + Field"
where
  "decodeSchema b =
     (case DeserializeRaw_encodedSchema b of
        Inl e \<Rightarrow> Inl e
      | Inr x \<Rightarrow>
          if es_ReferenceType x = ReferenceTypeSingle
             \<or> es_ReferenceType x = ReferenceTypeSlice
             \<or> es_ReferenceType x = ReferenceTypeDynamic then
            (if es_ReferenceType x \<noteq> ReferenceTypeDynamic then
               (case decodeSchema (es_Elem x) of
                  Inl e \<Rightarrow> Inl e
                | Inr el \<Rightarrow> Inr (referenceSchema (es_Kind x) (es_ReferenceType x) (Some el)))
             else Inr (referenceSchema (es_Kind x) (es_ReferenceType x) None))
          else if es_ReferenceType x = ReferenceTypeNone then
            (if es_Kind x = reflect_Slice then
               (case decodeSchema (es_Elem x) of
                  Inl e \<Rightarrow> Inl e
                | Inr el \<Rightarrow> Inr (sliceSchema (es_Kind x) (es_Name x) el))
             else if es_Kind x = reflect_Array then
               (case decodeSchema (es_Elem x) of
                  Inl e \<Rightarrow> Inl e
                | Inr el \<Rightarrow> Inr (arraySchema (es_Kind x) (es_Name x) (es_Len x) el))
             else if es_Kind x = reflect_Struct then
               (case decodeFields (es_Fields x) of
                  Inl e \<Rightarrow> Inl e
                | Inr fs \<Rightarrow> Inr (structSchema (es_Kind x) (es_Name x) fs))
             else Inr (schema (es_Kind x) (es_Name x)))
          else Inl ErrInvalidEncodedSchema)"
| "decodeFields [] = Inr []"
| "decodeFields (ef # efs) =
     (case decodeField ef of
        Inl e \<Rightarrow> Inl e
      | Inr f \<Rightarrow>
          (case decodeFields efs of
             Inl e \<Rightarrow> Inl e
           | Inr fs \<Rightarrow> Inr (f # fs)))"
| "decodeField b =
     (case DeserializeRaw_encodedField b of
        Inl e \<Rightarrow> Inl e
      | Inr ef \<Rightarrow>
          (case decodeSchema (ef_Schema ef) of
             Inl e \<Rightarrow> Inl e
           | Inr s \<Rightarrow> Inr (field (ef_Name ef) (ef_Tag ef) s)))"
  by pat_completeness auto

termination
proof (relation "measure (\<lambda>x. case x of
          Inl b \<Rightarrow> 2 * length b + 1
        | Inr (Inl efs) \<Rightarrow> 2 * (\<Sum>f\<leftarrow>efs. Suc (length f)) + 1
        | Inr (Inr b) \<Rightarrow> 2 * length b + 2)", goal_cases)
  case 1
  show ?case by simp
next
  case (2 b x)
  then show ?case using encodedSchema_length[of b x] by simp
next
  case (3 b x)
  then show ?case using encodedSchema_length[of b x] by simp
next
  case (4 b x)
  then show ?case using encodedSchema_length[of b x] by simp
next
  case (5 b x)
  then show ?case
    using encodedSchema_length[of b x] sum_list_fields_le[of "es_Fields x"] by simp
next
  case (6 ef efs)
  show ?case by simp
next
  case (7 ef efs f)
  show ?case by simp
next
  case (8 b ef)
  then show ?case using encodedField_length[of b ef] by simp
qed

declare decodeSchema.simps [simp del] decodeField.simps [simp del]

subsection \<open>Which encodings \<open>decodeSchema\<close> refuses\<close>

text \<open>Two encoded schemas of 24 bytes, with no name, no fields and no element: the
  first is not a reference and has the kind 200, which is no kind of Go; the second has
  the discriminator 7 and the kind of a struct.\<close>

definition odd_kind_bytes :: "byte list" where
  "odd_kind_bytes = [0,0,0,0, 200,0,0,0, 0,0,0,0, 0,0,0,0, 0,0,0,0, 0,0,0,0]"

definition bad_disc_bytes :: "byte list" where
  "bad_disc_bytes = [7,0,0,0, 25,0,0,0, 0,0,0,0, 0,0,0,0, 0,0,0,0, 0,0,0,0]"

lemma raw_odd_kind:
  "DeserializeRaw_encodedSchema odd_kind_bytes =
     Inr \<lparr>es_ReferenceType = 0, es_Kind = 200, es_Name = [], es_Len = 0,
          es_Fields = [], es_Elem = []\<rparr>"
  by (simp add: DeserializeRaw_encodedSchema_def odd_kind_bytes_def get_uint32_def
      get_bytes_def get_fixed_def get_bytes_list_def)

lemma raw_bad_disc:
  "DeserializeRaw_encodedSchema bad_disc_bytes =
     Inr \<lparr>es_ReferenceType = 7, es_Kind = 25, es_Name = [], es_Len = 0,
          es_Fields = [], es_Elem = []\<rparr>"
  by (simp add: DeserializeRaw_encodedSchema_def bad_disc_bytes_def get_uint32_def
      get_bytes_def get_fixed_def get_bytes_list_def)

text \<open>
  C6, as stated, fails: an encoding that is not a reference and carries the kind 200
  is outside every recognised discriminator/kind combination, and \<open>decodeSchema\<close>
  returns a plain schema of that kind for it.
\<close>

theorem decodeSchema_kind_counterexample:
  "DeserializeRaw_encodedSchema odd_kind_bytes =
     Inr \<lparr>es_ReferenceType = 0, es_Kind = 200, es_Name = [], es_Len = 0,
          es_Fields = [], es_Elem = []\<rparr>
   \<and> decodeSchema odd_kind_bytes = Inr (schema 200 [])"
  by (simp add: raw_odd_kind decodeSchema.simps reference_types reflect_kinds)

text \<open>
  C6, amended.  Of the discriminator and the kind, \<open>decodeSchema\<close> checks the
  discriminator only.  For every byte sequence that the raw decoder reads as an encoded
  schema: when the reference-type discriminator is none of None, Single, Slice and
  Dynamic, the result is the invalid-encoded-schema error and no schema; when the
  encoding is not a reference and its kind is none of slice, array and struct, whatever
  the kind is, the result is the plain schema of that kind and name.
\<close>

theorem decodeSchema_invalid:
  assumes "DeserializeRaw_encodedSchema b = Inr x"
  shows "(es_ReferenceType x \<notin> {ReferenceTypeNone, ReferenceTypeSingle, ReferenceTypeSlice,
                                  ReferenceTypeDynamic}
            \<longrightarrow> decodeSchema b = Inl ErrInvalidEncodedSchema)
         \<and> (es_ReferenceType x = ReferenceTypeNone
              \<and> es_Kind x \<notin> {reflect_Slice, reflect_Array, reflect_Struct}
            \<longrightarrow> decodeSchema b = Inr (schema (es_Kind x) (es_Name x)))"
  using assms by (auto simp add: decodeSchema.simps reference_types)

theorem decodeSchema_invalid_witness:
  "DeserializeRaw_encodedSchema bad_disc_bytes =
     Inr \<lparr>es_ReferenceType = 7, es_Kind = 25, es_Name = [], es_Len = 0,
          es_Fields = [], es_Elem = []\<rparr>
   \<and> 7 \<notin> {ReferenceTypeNone, ReferenceTypeSingle, ReferenceTypeSlice, ReferenceTypeDynamic}
   \<and> decodeSchema bad_disc_bytes = Inl ErrInvalidEncodedSchema
   \<and> DeserializeRaw_encodedSchema odd_kind_bytes =
     Inr \<lparr>es_ReferenceType = 0, es_Kind = 200, es_Name = [], es_Len = 0,
          es_Fields = [], es_Elem = []\<rparr>
   \<and> 0 = ReferenceTypeNone \<and> 200 \<notin> {reflect_Slice, reflect_Array, reflect_Struct}
   \<and> decodeSchema odd_kind_bytes = Inr (schema 200 [])"
  using decodeSchema_invalid[OF raw_bad_disc] decodeSchema_invalid[OF raw_odd_kind]
    raw_bad_disc raw_odd_kind
  by (simp add: reference_types reflect_kinds)

section \<open>The size engine\<close>

text \<open>
  \<^verbatim>\<open>SchemaSize\<close> and its helpers.  The source of the reference branch does not compile
  as it stands (\<^verbatim>\<open>sch\<close> for \<^verbatim>\<open>s\<close>, \<^verbatim>\<open>return len(cipher.SHA256{})\<close> with one
  of two results, \<^verbatim>\<open>refSize\<close> reading a \<^verbatim>\<open>p\<close> it is not given); it is read
  in its plain meaning: the size is returned with no error, and \<^verbatim>\<open>refSize\<close> reads
  the buffer of its caller.  \<^verbatim>\<open>len(cipher.SHA256{})\<close> is 32.

  A result is the error or the size: every caller in the code drops the size when the
  error is set.  A call of a method on a \<^verbatim>\<open>nil\<close> element (the element of a schema
  that has none) is Go's nil-pointer panic.
\<close>

text \<open>\<^verbatim>\<open>getLength\<close>: \<^verbatim>\<open>encoder.DeserializeRaw\<close> into a \<^verbatim>\<open>uint32\<close>.\<close>

definition getLength :: "byte list \<Rightarrow> error + nat" where
  "getLength p = bindE (get_uint32 p) (\<lambda>(u, r). Inr u)"

fun fixedSize :: "Kind \<Rightarrow> int" where
  "fixedSize kind =
     (if kind = reflect_Bool \<or> kind = reflect_Int8 \<or> kind = reflect_Uint8 then 1
      else if kind = reflect_Int16 \<or> kind = reflect_Uint16 then 2
      else if kind = reflect_Int32 \<or> kind = reflect_Uint32 \<or> kind = reflect_Float32 then 4
      else if kind = reflect_Int64 \<or> kind = reflect_Uint64 \<or> kind = reflect_Float64 then 8
      else - 1)"

text \<open>Modelled from the spec: \<^verbatim>\<open>refSize\<close> deserialises a \<^verbatim>\<open>References\<close>, whose
  type is not among the sources; its wire layout is the one the specification proposes
  to fix, a 4-byte count followed by that many fixed-width digests.  The result is the
  number of bytes read.\<close>

definition refSize :: "byte list \<Rightarrow> error + nat" where
  "refSize p =
     bindE (get_uint32 p) (\<lambda>(l, r).
     bindE (get_fixed (l * SHA256_len) r) (\<lambda>(ds, r').
       Inr (consumed p r')))"

lemma Elem_size [termination_simp]: "Elem s = Some el \<Longrightarrow> size el < size s"
  by (cases s) auto

lemma Fields_size [termination_simp]: "size_list size (Fields s) < Suc (size s)"
  by (cases s) auto

lemma Field_Schema_size [termination_simp]: "size (Field_Schema f) < size f"
  by (cases f) auto

function SchemaSize :: "Schema \<Rightarrow> byte list \<Rightarrow> error + nat"
  and schemaSliceSize :: "Schema \<Rightarrow> byte list \<Rightarrow> error + nat"
  and schemaArraySize :: "Schema \<Rightarrow> byte list \<Rightarrow> error + nat"
  and schemaArraySliceSize :: "Schema \<Rightarrow> nat \<Rightarrow> nat \<Rightarrow> byte list \<Rightarrow> error + nat"
  and schemaArraySliceSize_for :: "Schema \<Rightarrow> nat \<Rightarrow> nat \<Rightarrow> nat \<Rightarrow> byte list \<Rightarrow> error + nat"
  and schemaStructSize :: "Schema \<Rightarrow> byte list \<Rightarrow> error + nat"
  and schemaStructSize_for :: "Field list \<Rightarrow> nat \<Rightarrow> byte list \<Rightarrow> error + nat"
where
  "SchemaSize s p =
     (if IsReference s then
        (if ReferenceType s = ReferenceTypeSingle then Inr SHA256_len
         else if ReferenceType s = ReferenceTypeSlice then refSize p
         else if ReferenceType s = ReferenceTypeDynamic then Inr (2 * SHA256_len)
         else Inl (ErrInvalidReferenceType (ReferenceType s)))
      else
        (case
           (if Kind s = reflect_Bool \<or> Kind s = reflect_Int8 \<or> Kind s = reflect_Uint8 then Inr 1
            else if Kind s = reflect_Int16 \<or> Kind s = reflect_Uint16 then Inr 2
            else if Kind s = reflect_Int32 \<or> Kind s = reflect_Uint32 \<or> Kind s = reflect_Float32
              then Inr 4
            else if Kind s = reflect_Int64 \<or> Kind s = reflect_Uint64 \<or> Kind s = reflect_Float64
              then Inr 8
            else if Kind s = reflect_String then
              (case getLength p of Inl e \<Rightarrow> Inl e | Inr n \<Rightarrow> Inr (n + 4))
            else if Kind s = reflect_Slice then schemaSliceSize s p
            else if Kind s = reflect_Array then schemaArraySize s p
            else if Kind s = reflect_Struct then schemaStructSize s p
            else Inl ErrInvalidSchema)
         of
           Inl e \<Rightarrow> Inl e
         | Inr n \<Rightarrow> if n > length p then Inl ErrInvalidSchemaOrData else Inr n))"
| "schemaSliceSize s p =
     (case getLength p of
        Inl e \<Rightarrow> Inl e
      | Inr l \<Rightarrow>
          (case Elem s of
             None \<Rightarrow> Inl PanicNilDereference
           | Some el \<Rightarrow> schemaArraySliceSize el l 4 p))"
| "schemaArraySize s p =
     (case Elem s of
        None \<Rightarrow> Inl PanicNilDereference
      | Some el \<Rightarrow> schemaArraySliceSize el (Len s) 0 p)"
| "schemaArraySliceSize el l shift p =
     (if fixedSize (Kind el) > 0 then Inr (shift + l * nat (fixedSize (Kind el)))
      else schemaArraySliceSize_for el 0 l shift p)"
| "schemaArraySliceSize_for el i l n p =
     (if i < l then
        (if n \<ge> length p then Inl ErrInvalidSchemaOrData
         else
           (case SchemaSize el (drop n p) of
              Inl e \<Rightarrow> Inl e
            | Inr m \<Rightarrow> schemaArraySliceSize_for el (i + 1) l (n + m) p))
      else Inr n)"
| "schemaStructSize s p = schemaStructSize_for (Fields s) 0 p"
| "schemaStructSize_for [] n p = Inr n"
| "schemaStructSize_for (sf # sfs) n p =
     (if n \<ge> length p then Inl ErrInvalidSchemaOrData
      else
        (case SchemaSize (Field_Schema sf) (drop n p) of
           Inl e \<Rightarrow> Inl e
         | Inr m \<Rightarrow> schemaStructSize_for sfs (n + m) p))"
  by pat_completeness auto

termination
  apply (relation "inv_image (less_than <*lex*> less_than <*lex*> less_than)
     (\<lambda>x. case x of
        Inl (Inl (s, p)) \<Rightarrow> (2 * size s + 1, 3, 0)
      | Inl (Inr (Inl (s, p))) \<Rightarrow> (2 * size s + 1, 2, 0)
      | Inl (Inr (Inr (s, p))) \<Rightarrow> (2 * size s + 1, 2, 0)
      | Inr (Inl (Inl (el, l, shift, p))) \<Rightarrow> (2 * size el + 1, 5, 0)
      | Inr (Inl (Inr (el, i, l, n, p))) \<Rightarrow> (2 * size el + 1, 4, l - i)
      | Inr (Inr (Inl (s, p))) \<Rightarrow> (2 * size s + 1, 2, 0)
      | Inr (Inr (Inr (fs, n, p))) \<Rightarrow> (2 * size_list size fs, 0, 0))")
  apply (auto simp: Elem_size)
  subgoal for s using Fields_size[of s] by linarith
  subgoal for sf sfs n p using Field_Schema_size[of sf] by linarith
  done

declare SchemaSize.simps [simp del] schemaSliceSize.simps [simp del]
  schemaArraySize.simps [simp del] schemaArraySliceSize.simps [simp del]
  schemaArraySliceSize_for.simps [simp del] schemaStructSize.simps [simp del]


subsection \<open>Values and their encoding\<close>

text \<open>Modelled from the spec: the values of the raw encoder and their bytes.  A bool,
  integer or float is held as its fixed-width encoding; a string or byte sequence is
  its 4-byte length and its bytes; a slice is its 4-byte count and its elements; an
  array is its elements; a struct is its fields in order; a Single reference is one
  digest, a Dynamic reference two, a Slice reference a count and its digests.\<close>

datatype Value =
    VFixed "byte list"
  | VString "byte list"
  | VSlice "Value list"
  | VArray "Value list"
  | VStruct "Value list"
  | VReference "byte list"
  | VReferences "byte list list"
  | VDynamic "byte list" "byte list"

fun encode :: "Value \<Rightarrow> byte list" where
  "encode (VFixed bs) = bs"
| "encode (VString bs) = put_bytes bs"
| "encode (VSlice vs) = put_uint32 (length vs) @ concat (map encode vs)"
| "encode (VArray vs) = concat (map encode vs)"
| "encode (VStruct vs) = concat (map encode vs)"
| "encode (VReference d) = d"
| "encode (VReferences ds) = put_uint32 (length ds) @ concat ds"
| "encode (VDynamic a b) = a @ b"

text \<open>
  \<open>encodable s v\<close>: the value \<open>v\<close> is a value of the schema \<open>s\<close>.  The kind of the
  schema decides, as it does everywhere in the code.  A count fits its four bytes.  The
  kind of a reference schema is the kind of its Go wrapper type (an array, a slice or a
  struct), never a scalar kind.
\<close>

fun encodable :: "Schema \<Rightarrow> Value \<Rightarrow> bool"
  and encodable_fields :: "Field list \<Rightarrow> Value list \<Rightarrow> bool"
where
  "encodable s (VFixed bs) =
     (\<not> IsReference s \<and> 0 < fixedSize (Kind s) \<and> int (length bs) = fixedSize (Kind s))"
| "encodable s (VString bs) =
     (\<not> IsReference s \<and> Kind s = reflect_String \<and> length bs < 2 ^ 32)"
| "encodable s (VSlice vs) =
     (\<not> IsReference s \<and> Kind s = reflect_Slice \<and> length vs < 2 ^ 32
      \<and> (case Elem s of None \<Rightarrow> False | Some el \<Rightarrow> \<forall>v\<in>set vs. encodable el v))"
| "encodable s (VArray vs) =
     (\<not> IsReference s \<and> Kind s = reflect_Array \<and> length vs = Len s
      \<and> (case Elem s of None \<Rightarrow> False | Some el \<Rightarrow> \<forall>v\<in>set vs. encodable el v))"
| "encodable s (VStruct vs) =
     (\<not> IsReference s \<and> Kind s = reflect_Struct \<and> encodable_fields (Fields s) vs)"
| "encodable s (VReference d) =
     (IsReference s \<and> ReferenceType s = ReferenceTypeSingle \<and> fixedSize (Kind s) < 0
      \<and> length d = SHA256_len)"
| "encodable s (VReferences ds) =
     (IsReference s \<and> ReferenceType s = ReferenceTypeSlice \<and> fixedSize (Kind s) < 0
      \<and> length ds < 2 ^ 32 \<and> (\<forall>d\<in>set ds. length d = SHA256_len))"
| "encodable s (VDynamic a b) =
     (IsReference s \<and> ReferenceType s = ReferenceTypeDynamic \<and> fixedSize (Kind s) < 0
      \<and> length a = SHA256_len \<and> length b = SHA256_len)"
| "encodable_fields [] [] = True"
| "encodable_fields (sf # sfs) (v # vs) =
     (encodable (Field_Schema sf) v \<and> encodable_fields sfs vs)"
| "encodable_fields [] (v # vs) = False"
| "encodable_fields (sf # sfs) [] = False"

subsection \<open>What the size engine returns on a prefix of an encoding\<close>

text \<open>The last lines of \<^verbatim>\<open>SchemaSize\<close>, which compare the size with the length of the
  buffer, and the three results the engine can give on a prefix of the encoding of a
  value whose full encoding has \<open>m\<close> bytes.\<close>

definition size_check :: "byte list \<Rightarrow> error + nat \<Rightarrow> error + nat" where
  "size_check p x =
     (case x of Inl e \<Rightarrow> Inl e
      | Inr n \<Rightarrow> if n > length p then Inl ErrInvalidSchemaOrData else Inr n)"

definition sized :: "nat \<Rightarrow> (error + nat) set" where
  "sized m = {Inl ErrInvalidSchemaOrData, Inl ErrDeserialize, Inr m}"

lemma size_check_sized: "x \<in> sized m \<Longrightarrow> size_check p x \<in> sized m"
  by (auto simp: sized_def size_check_def split: if_splits)

lemma fixedSize_cases:
  "fixedSize k = 1 \<or> fixedSize k = 2 \<or> fixedSize k = 4 \<or> fixedSize k = 8 \<or> fixedSize k = - 1"
  by simp

lemma fixedSize_neg_kinds [simp]:
  "fixedSize reflect_String = - 1" "fixedSize reflect_Slice = - 1"
  "fixedSize reflect_Array = - 1" "fixedSize reflect_Struct = - 1"
  by (simp_all add: reflect_kinds)

declare fixedSize.simps [simp del]

lemma SchemaSize_fixed:
  assumes "\<not> IsReference s" "0 < fixedSize (Kind s)"
  shows "SchemaSize s p = size_check p (Inr (nat (fixedSize (Kind s))))"
proof -
  from assms(2) have "Kind s \<in> {reflect_Bool, reflect_Int8, reflect_Uint8, reflect_Int16,
      reflect_Uint16, reflect_Int32, reflect_Uint32, reflect_Float32, reflect_Int64,
      reflect_Uint64, reflect_Float64}"
    by (auto simp add: fixedSize.simps split: if_splits)
  then show ?thesis
    using assms(1)
    by (auto simp add: SchemaSize.simps[of s p] size_check_def fixedSize.simps reflect_kinds)
qed

lemma SchemaSize_String:
  assumes "\<not> IsReference s" "Kind s = reflect_String"
  shows "SchemaSize s p = size_check p (bindE (getLength p) (\<lambda>n. Inr (n + 4)))"
  using assms
  by (simp add: SchemaSize.simps size_check_def reflect_kinds bindE_def)

lemma SchemaSize_Slice:
  assumes "\<not> IsReference s" "Kind s = reflect_Slice"
  shows "SchemaSize s p = size_check p (schemaSliceSize s p)"
  using assms
  by (simp add: SchemaSize.simps[of s p] size_check_def reflect_kinds)

lemma SchemaSize_Array:
  assumes "\<not> IsReference s" "Kind s = reflect_Array"
  shows "SchemaSize s p = size_check p (schemaArraySize s p)"
  using assms
  by (simp add: SchemaSize.simps[of s p] size_check_def reflect_kinds)

lemma SchemaSize_Struct:
  assumes "\<not> IsReference s" "Kind s = reflect_Struct"
  shows "SchemaSize s p = size_check p (schemaStructSize s p)"
  using assms
  by (simp add: SchemaSize.simps[of s p] size_check_def reflect_kinds)

lemma SchemaSize_Reference:
  assumes "IsReference s"
  shows "SchemaSize s p =
     (if ReferenceType s = ReferenceTypeSingle then Inr SHA256_len
      else if ReferenceType s = ReferenceTypeSlice then refSize p
      else if ReferenceType s = ReferenceTypeDynamic then Inr (2 * SHA256_len)
      else Inl (ErrInvalidReferenceType (ReferenceType s)))"
  using assms by (simp add: SchemaSize.simps[of s p])

lemma get_uint32_take:
  "get_uint32 (take L (put_uint32 n @ r)) =
     (if L < 4 then Inl ErrDeserialize else Inr (n mod 2 ^ 32, take (L - 4) r))"
proof (cases "L < 4")
  case True
  then show ?thesis by (simp add: get_uint32_def)
next
  case False
  then have "take L (put_uint32 n @ r) = put_uint32 n @ take (L - 4) r"
    by (simp add: length_put_uint32)
  with False show ?thesis by (simp add: get_uint32_put)
qed

lemma getLength_take:
  "getLength (take L (put_uint32 n @ r)) =
     (if L < 4 then Inl ErrDeserialize else Inr (n mod 2 ^ 32))"
  unfolding getLength_def get_uint32_take by simp


lemma sized_cases:
  assumes "x \<in> sized m"
  obtains "x = Inl ErrInvalidSchemaOrData" | "x = Inl ErrDeserialize" | "x = Inr m"
  using assms by (auto simp: sized_def)

lemma sized_simps [simp]:
  "Inl ErrInvalidSchemaOrData \<in> sized m" "Inl ErrDeserialize \<in> sized m" "Inr m \<in> sized m"
  by (simp_all add: sized_def)

lemma array_for_sized:
  assumes "\<And>v L r. v \<in> set vs \<Longrightarrow> SchemaSize el (take L (encode v @ r)) \<in> sized (length (encode v))"
  shows "schemaArraySliceSize_for el i (i + length vs) (length pre)
           (take L (pre @ concat (map encode vs) @ r))
         \<in> sized (length pre + length (concat (map encode vs)))"
  using assms
proof (induction vs arbitrary: i pre)
  case Nil
  show ?case by (simp add: schemaArraySliceSize_for.simps[of el i])
next
  case (Cons v vs)
  let ?p = "take L (pre @ concat (map encode (v # vs)) @ r)"
  show ?case
  proof (cases "length ?p \<le> length pre")
    case True
    then show ?thesis
      by (simp add: schemaArraySliceSize_for.simps[of el i])
  next
    case False
    then have d: "drop (length pre) ?p = take (L - length pre) (encode v @ concat (map encode vs) @ r)"
      by simp
    have m: "SchemaSize el (drop (length pre) ?p) \<in> sized (length (encode v))"
      unfolding d by (rule Cons.prems) simp
    have ih: "schemaArraySliceSize_for el (Suc i) (Suc i + length vs) (length (pre @ encode v))
           (take L ((pre @ encode v) @ concat (map encode vs) @ r))
         \<in> sized (length (pre @ encode v) + length (concat (map encode vs)))"
      by (rule Cons.IH, rule Cons.prems, simp)
    from m show ?thesis
    proof (cases rule: sized_cases)
      case 1
      with False show ?thesis
        by (simp add: schemaArraySliceSize_for.simps[of el i])
    next
      case 2
      with False show ?thesis
        by (simp add: schemaArraySliceSize_for.simps[of el i])
    next
      case 3
      with False ih show ?thesis
        by (simp add: schemaArraySliceSize_for.simps[of el i] add.assoc)
    qed
  qed
qed

lemma struct_for_sized:
  assumes "list_all2 (\<lambda>sf v. \<forall>L r. SchemaSize (Field_Schema sf) (take L (encode v @ r))
                           \<in> sized (length (encode v))) sfs vs"
  shows "schemaStructSize_for sfs (length pre) (take L (pre @ concat (map encode vs) @ r))
         \<in> sized (length pre + length (concat (map encode vs)))"
  using assms
proof (induction sfs vs arbitrary: pre rule: list_all2_induct)
  case Nil
  show ?case by simp
next
  case (Cons sf sfs v vs)
  let ?p = "take L (pre @ concat (map encode (v # vs)) @ r)"
  show ?case
  proof (cases "length ?p \<le> length pre")
    case True
    then show ?thesis by simp
  next
    case False
    then have d: "drop (length pre) ?p = take (L - length pre) (encode v @ concat (map encode vs) @ r)"
      by simp
    have m: "SchemaSize (Field_Schema sf) (drop (length pre) ?p) \<in> sized (length (encode v))"
      unfolding d using Cons.hyps(1) by blast
    have ih: "schemaStructSize_for sfs (length (pre @ encode v))
           (take L ((pre @ encode v) @ concat (map encode vs) @ r))
         \<in> sized (length (pre @ encode v) + length (concat (map encode vs)))"
      by (rule Cons.IH)
    from m show ?thesis
    proof (cases rule: sized_cases)
      case 1
      with False show ?thesis by simp
    next
      case 2
      with False show ?thesis by simp
    next
      case 3
      with False ih show ?thesis by (simp add: add.assoc)
    qed
  qed
qed


lemma encodable_fixed_length:
  assumes "encodable el v" "0 < fixedSize (Kind el)"
  shows "length (encode v) = nat (fixedSize (Kind el))"
  using assms by (cases v) auto

lemma concat_fixed_length:
  assumes "\<And>v. v \<in> set vs \<Longrightarrow> length (f v) = w"
  shows "length (concat (map f vs)) = length vs * w"
  using assms by (induction vs) auto

lemma refSize_take:
  assumes "length ds < 2 ^ 32" "\<forall>d\<in>set ds. length d = SHA256_len"
  shows "refSize (take L (put_uint32 (length ds) @ concat ds @ r))
         \<in> sized (length (put_uint32 (length ds) @ concat ds))"
proof -
  have c: "length (concat ds) = length ds * SHA256_len"
    using concat_fixed_length[of ds "\<lambda>d. d" SHA256_len] assms(2) by simp
  have m: "length ds mod 2 ^ 32 = length ds"
    using assms(1) by simp
  show ?thesis
  proof (cases "L < 4")
    case True
    then show ?thesis
      unfolding refSize_def get_uint32_take by simp
  next
    case False
    note L4 = this
    show ?thesis
    proof (cases "L - 4 < length ds * SHA256_len")
      case True
      then have "length (take (L - 4) (concat ds @ r)) < length ds * SHA256_len"
        by simp
      then show ?thesis
        unfolding refSize_def get_uint32_take using L4 m
        by (simp add: get_fixed_def del: take_append)
    next
      case False
      have l: "length (take L (put_uint32 (length ds) @ concat ds @ r))
                 = min L (4 + length ds * SHA256_len + length r)"
        by (simp add: length_put_uint32 c)
      have "\<not> length (take (L - 4) (concat ds @ r)) < length ds * SHA256_len"
        using False c by simp
      then show ?thesis
        unfolding refSize_def get_uint32_take using L4 m False c
        by (simp add: get_fixed_def consumed_def l length_put_uint32 del: take_append)
           (auto simp add: min_def add.commute)
    qed
  qed
qed


lemma SchemaSize_sized_aux:
  "encodable s v \<Longrightarrow>
     (\<forall>L r. SchemaSize s (take L (encode v @ r)) \<in> sized (length (encode v)))"
  "encodable_fields sfs vs \<Longrightarrow>
     list_all2 (\<lambda>sf v. \<forall>L r. SchemaSize (Field_Schema sf) (take L (encode v @ r))
                           \<in> sized (length (encode v))) sfs vs"
proof (induction s v and sfs vs rule: encodable_encodable_fields.induct)
  case (1 s bs)
  then have a: "\<not> IsReference s" "0 < fixedSize (Kind s)"
    and n: "nat (fixedSize (Kind s)) = length bs"
    by auto
  show ?case
    by (simp add: SchemaSize_fixed[OF a] n size_check_sized del: take_append)
next
  case (2 s bs)
  then have a: "\<not> IsReference s" "Kind s = reflect_String" "length bs < 2 ^ 32"
    by simp_all
  show ?case
  proof (intro allI)
    fix L r
    have "SchemaSize s (take L (put_uint32 (length bs) @ bs @ r)) \<in> sized (length bs + 4)"
      unfolding SchemaSize_String[OF a(1,2)] getLength_take
      using a(3) by (auto intro!: size_check_sized)
    then show "SchemaSize s (take L (encode (VString bs) @ r)) \<in> sized (length (encode (VString bs)))"
      by (simp add: put_bytes_def length_put_uint32 add.commute del: take_append)
  qed
next
  case (3 s vs)
  then obtain el where a: "\<not> IsReference s" "Kind s = reflect_Slice" "length vs < 2 ^ 32"
      "Elem s = Some el" "\<forall>v\<in>set vs. encodable el v"
    by (auto split: option.splits)
  have ih: "\<And>v L r. v \<in> set vs \<Longrightarrow>
      SchemaSize el (take L (encode v @ r)) \<in> sized (length (encode v))"
    using "3.IH"[OF a(4)] a(5) by blast
  show ?case
  proof (intro allI)
    fix L r
    let ?p = "take L (put_uint32 (length vs) @ concat (map encode vs) @ r)"
    have "schemaSliceSize s ?p \<in> sized (4 + length (concat (map encode vs)))"
    proof (cases "L < 4")
      case True
      then show ?thesis
        unfolding schemaSliceSize.simps[of s ?p] getLength_take by simp
    next
      case False
      show ?thesis
      proof (cases "0 < fixedSize (Kind el)")
        case True
        have "length (concat (map encode vs)) = length vs * nat (fixedSize (Kind el))"
          by (rule concat_fixed_length) (use a(5) True encodable_fixed_length in blast)
        then show ?thesis
          unfolding schemaSliceSize.simps[of s ?p] getLength_take
          using False a(3,4) True
          by (simp add: schemaArraySliceSize.simps del: take_append)
      next
        case F: False
        have "schemaArraySliceSize_for el 0 (0 + length vs) (length (put_uint32 (length vs))) ?p
              \<in> sized (length (put_uint32 (length vs)) + length (concat (map encode vs)))"
          by (rule array_for_sized) (rule ih)
        then show ?thesis
          unfolding schemaSliceSize.simps[of s ?p] getLength_take
          using False a(3,4) F
          by (simp add: schemaArraySliceSize.simps length_put_uint32 del: take_append)
      qed
    qed
    then have "SchemaSize s ?p \<in> sized (4 + length (concat (map encode vs)))"
      unfolding SchemaSize_Slice[OF a(1,2)] by (rule size_check_sized)
    then show "SchemaSize s (take L (encode (VSlice vs) @ r)) \<in> sized (length (encode (VSlice vs)))"
      by (simp add: length_put_uint32 del: take_append)
  qed
next
  case (4 s vs)
  then obtain el where a: "\<not> IsReference s" "Kind s = reflect_Array" "length vs = Len s"
      "Elem s = Some el" "\<forall>v\<in>set vs. encodable el v"
    by (auto split: option.splits)
  have ih: "\<And>v L r. v \<in> set vs \<Longrightarrow>
      SchemaSize el (take L (encode v @ r)) \<in> sized (length (encode v))"
    using "4.IH"[OF a(4)] a(5) by blast
  show ?case
  proof (intro allI)
    fix L r
    let ?p = "take L (concat (map encode vs) @ r)"
    have "schemaArraySize s ?p \<in> sized (length (concat (map encode vs)))"
    proof (cases "0 < fixedSize (Kind el)")
      case True
      have "length (concat (map encode vs)) = length vs * nat (fixedSize (Kind el))"
        by (rule concat_fixed_length) (use a(5) True encodable_fixed_length in blast)
      then show ?thesis
        unfolding schemaArraySize.simps[of s ?p]
        using a(3,4) True
        by (simp add: schemaArraySliceSize.simps del: take_append)
    next
      case F: False
      have "schemaArraySliceSize_for el 0 (0 + length vs) (length ([] :: byte list))
              (take L ([] @ concat (map encode vs) @ r))
            \<in> sized (length ([] :: byte list) + length (concat (map encode vs)))"
        by (rule array_for_sized) (rule ih)
      then show ?thesis
        unfolding schemaArraySize.simps[of s ?p]
        using a(3,4) F
        by (simp add: schemaArraySliceSize.simps del: take_append)
    qed
    then have "SchemaSize s ?p \<in> sized (length (concat (map encode vs)))"
      unfolding SchemaSize_Array[OF a(1,2)] by (rule size_check_sized)
    then show "SchemaSize s (take L (encode (VArray vs) @ r)) \<in> sized (length (encode (VArray vs)))"
      by (simp del: take_append)
  qed
next
  case (5 s vs)
  then have a: "\<not> IsReference s" "Kind s = reflect_Struct" "encodable_fields (Fields s) vs"
    by simp_all
  note ih = "5.IH"[OF a(3)]
  show ?case
  proof (intro allI)
    fix L r
    let ?p = "take L (concat (map encode vs) @ r)"
    have "schemaStructSize_for (Fields s) (length ([] :: byte list))
            (take L ([] @ concat (map encode vs) @ r))
          \<in> sized (length ([] :: byte list) + length (concat (map encode vs)))"
      by (rule struct_for_sized) (rule ih)
    then have "schemaStructSize s ?p \<in> sized (length (concat (map encode vs)))"
      by (simp add: schemaStructSize.simps del: take_append)
    then have "SchemaSize s ?p \<in> sized (length (concat (map encode vs)))"
      unfolding SchemaSize_Struct[OF a(1,2)] by (rule size_check_sized)
    then show "SchemaSize s (take L (encode (VStruct vs) @ r)) \<in> sized (length (encode (VStruct vs)))"
      by (simp del: take_append)
  qed
next
  case (6 s d)
  then show ?case
    by (simp add: SchemaSize_Reference del: take_append)
next
  case (7 s ds)
  then have a: "IsReference s" "ReferenceType s = ReferenceTypeSlice" "length ds < 2 ^ 32"
      "\<forall>d\<in>set ds. length d = SHA256_len"
    by simp_all
  show ?case
    using refSize_take[OF a(3,4)] a(1,2)
    by (simp add: SchemaSize_Reference reference_types del: take_append)
next
  case (8 s a b)
  then show ?case
    by (simp add: SchemaSize_Reference reference_types mult_2 del: take_append)
next
  case 9
  show ?case by simp
next
  case (10 sf sfs v vs)
  then show ?case by simp
next
  case (11 v vs)
  then show ?case by simp
next
  case (12 sf sfs)
  then show ?case by simp
qed

text \<open>
  C2.  Truncation safety.  For every schema, every value of that schema and every length
  \<open>L\<close> below the length of the value's encoding, \<open>SchemaSize\<close> on the first \<open>L\<close> bytes
  of the encoding returns a reported error (the malformed-data error, or the error of
  the raw decoder that could not read a 4-byte count), or a size greater than \<open>L\<close>.  It
  never returns a size of at most \<open>L\<close> with no error, and it never panics.
\<close>

theorem SchemaSize_truncation:
  assumes "encodable s v" and "L < length (encode v)"
  shows "case SchemaSize s (take L (encode v)) of
           Inl e \<Rightarrow> e = ErrInvalidSchemaOrData \<or> e = ErrDeserialize
         | Inr n \<Rightarrow> L < n"
proof -
  have "SchemaSize s (take L (encode v @ [])) \<in> sized (length (encode v))"
    using SchemaSize_sized_aux(1)[OF assms(1)] by blast
  then have "SchemaSize s (take L (encode v)) \<in> sized (length (encode v))"
    by simp
  then show ?thesis
  proof (cases rule: sized_cases)
    case 1
    then show ?thesis by simp
  next
    case 2
    then show ?thesis by simp
  next
    case 3
    then show ?thesis using assms(2) by simp
  qed
qed

text \<open>A struct of a byte, a string and a Single reference, and a value of it: 39 bytes
  encoded.\<close>

definition user_schema :: Schema where
  "user_schema = structSchema reflect_Struct []
     [field [65] [] (schema reflect_Uint8 []),
      field [66] [] (schema reflect_String []),
      field [67] [] (referenceSchema reflect_Array ReferenceTypeSingle
                       (Some (schema reflect_Struct [85])))]"

definition user_value :: Value where
  "user_value = VStruct [VFixed [5], VString [1, 2], VReference (replicate 32 9)]"

lemma user_encodable: "encodable user_schema user_value"
  by (simp add: user_schema_def user_value_def reflect_kinds fixedSize.simps SHA256_len_def)

lemma user_length: "length (encode user_value) = 39"
  by (simp add: user_value_def put_bytes_def length_put_uint32)

theorem SchemaSize_truncation_witness:
  "encodable user_schema user_value \<and> 3 < length (encode user_value)
   \<and> (case SchemaSize user_schema (take 3 (encode user_value)) of
           Inl e \<Rightarrow> e = ErrInvalidSchemaOrData \<or> e = ErrDeserialize
         | Inr n \<Rightarrow> 3 < n)"
proof -
  have l: "3 < length (encode user_value)"
    by (simp add: user_length)
  show ?thesis
    using SchemaSize_truncation[OF user_encodable l] user_encodable l by simp
qed

text \<open>A struct whose last field is an empty struct, \<^verbatim>\<open>struct{A uint8; B struct{}}\<close>,
  and its value with \<open>A = 5\<close>: one byte encoded.\<close>

definition tail_schema :: Schema where
  "tail_schema = structSchema reflect_Struct []
     [field [65] [] (schema reflect_Uint8 []),
      field [66] [] (structSchema reflect_Struct [] [])]"

definition tail_value :: Value where
  "tail_value = VStruct [VFixed [5], VStruct []]"

lemma tail_encodable: "encodable tail_schema tail_value"
  by (simp add: tail_schema_def tail_value_def reflect_kinds fixedSize.simps)

lemma tail_encode: "encode tail_value = [5]"
  by (simp add: tail_value_def)

lemma tail_size: "SchemaSize tail_schema [5] = Inl ErrInvalidSchemaOrData"
  by (simp add: tail_schema_def SchemaSize_Struct SchemaSize_fixed schemaStructSize.simps
      size_check_def fixedSize.simps reflect_kinds)

text \<open>
  C1 fails on the code.  The claim is that the size engine returns the length of the
  encoding for every value of every schema.  The loop of \<^verbatim>\<open>schemaStructSize\<close> (and
  the one of \<^verbatim>\<open>schemaArraySliceSize\<close>) tests \<^verbatim>\<open>n >= len(p)\<close> before each field,
  so a field or element that takes no bytes and stands at the end of the buffer is
  refused: for the struct above and the one byte of its value, the result is the
  malformed-data error and not the size 1.
\<close>

theorem SchemaSize_zero_size_field:
  "encodable tail_schema tail_value
   \<and> encode tail_value = [5]
   \<and> SchemaSize tail_schema (encode tail_value) = Inl ErrInvalidSchemaOrData"
  by (simp add: tail_encodable tail_encode tail_size)

section \<open>The type registrar\<close>

text \<open>
  A Go string is a sequence of bytes, and \<^verbatim>\<open>[]byte(name)\<close> and \<^verbatim>\<open>string(b)\<close>
  change nothing in it: names, tags and their parts are byte lists.  The string
  constants of the code are written out in ASCII.
\<close>

type_synonym gostring = "byte list"

definition TAG :: gostring where
  \<comment> \<open>\<^verbatim>\<open>"skyobject"\<close>\<close>
  "TAG = [115, 107, 121, 111, 98, 106, 101, 99, 116]"

definition str_enc :: gostring where
  \<comment> \<open>\<^verbatim>\<open>"enc"\<close>\<close>
  "str_enc = [101, 110, 99]"

definition str_minus :: gostring where
  \<comment> \<open>\<^verbatim>\<open>"-"\<close>\<close>
  "str_minus = [45]"

definition str_underscore :: gostring where
  \<comment> \<open>\<^verbatim>\<open>"_"\<close>\<close>
  "str_underscore = [95]"

definition str_schema_eq :: gostring where
  \<comment> \<open>\<^verbatim>\<open>"schema="\<close>\<close>
  "str_schema_eq = [115, 99, 104, 101, 109, 97, 61]"

definition chr_comma :: byte where "chr_comma = 44"
definition chr_eq :: byte where "chr_eq = 61"

text \<open>
  \<^verbatim>\<open>reflect.StructTag\<close>: the tag as written, and the key/value pairs that the standard
  library's \<^verbatim>\<open>Tag.Get\<close> reads from it (an absent key reads as the empty string).
\<close>

datatype StructTag = StructTag (tag_raw: gostring) (tag_pairs: "(gostring \<times> gostring) list")

definition Tag_Get :: "StructTag \<Rightarrow> gostring \<Rightarrow> gostring" where
  "Tag_Get tag key = (case map_of (tag_pairs tag) key of None \<Rightarrow> [] | Some v \<Rightarrow> v)"

text \<open>
  \<^verbatim>\<open>reflect.Type\<close>, as far as \<^verbatim>\<open>getSchema\<close> looks at a type: a type of a basic kind
  (its kind and its \<^verbatim>\<open>Name()\<close>; any kind \<^verbatim>\<open>getSchema\<close> has no case for is also
  held this way), a slice, an array, a struct with its fields, and the three
  reference-wrapper types \<^verbatim>\<open>typeOfRef\<close>, \<^verbatim>\<open>typeOfRefs\<close> and \<^verbatim>\<open>typeOfDynamic\<close>.
  \<^verbatim>\<open>Name()\<close> is empty for a type that has no name.  Two types are equal as values of
  \<open>GoType\<close> when Go's \<^verbatim>\<open>==\<close> on their \<^verbatim>\<open>reflect.Type\<close> holds.
\<close>

datatype GoType =
    TBasic Kind gostring
  | TSlice gostring GoType
  | TArray gostring nat GoType
  | TStruct gostring "StructField list"
  | typeOfRef
  | typeOfRefs
  | typeOfDynamic
and StructField =
    StructField (sf_Name: gostring) (sf_PkgPath: gostring) (sf_Tag: StructTag) (sf_Type: GoType)

text \<open>Modelled from the spec: the kinds of the three wrapper types, which are declared in
  a file that is not among the sources: a Single reference is one digest (an array of
  bytes), a Slice reference a list of them, a Dynamic reference a pair of digests (a
  struct).\<close>

fun Type_Kind :: "GoType \<Rightarrow> Kind" where
  "Type_Kind (TBasic k n) = k"
| "Type_Kind (TSlice n e) = reflect_Slice"
| "Type_Kind (TArray n l e) = reflect_Array"
| "Type_Kind (TStruct n fs) = reflect_Struct"
| "Type_Kind typeOfRef = reflect_Array"
| "Type_Kind typeOfRefs = reflect_Slice"
| "Type_Kind typeOfDynamic = reflect_Struct"

fun Type_Name :: "GoType \<Rightarrow> gostring" where
  "Type_Name (TBasic k n) = n"
| "Type_Name (TSlice n e) = n"
| "Type_Name (TArray n l e) = n"
| "Type_Name (TStruct n fs) = n"
| "Type_Name typeOfRef = [82, 101, 102, 101, 114, 101, 110, 99, 101]"
| "Type_Name typeOfRefs = [82, 101, 102, 101, 114, 101, 110, 99, 101, 115]"
| "Type_Name typeOfDynamic = [68, 121, 110, 97, 109, 105, 99]"

text \<open>
  The exemplar given to \<^verbatim>\<open>Register\<close> is an \<^verbatim>\<open>interface{}\<close>: \<^verbatim>\<open>nil\<close>, a value that
  is no pointer, or a pointer (to a value, or \<^verbatim>\<open>nil\<close>) of some type.
  \<^verbatim>\<open>typeOf\<close> is \<^verbatim>\<open>reflect.Indirect(reflect.ValueOf(i)).Type()\<close>: \<^verbatim>\<open>ValueOf(nil)\<close> is
  the zero \<^verbatim>\<open>Value\<close>, \<^verbatim>\<open>Indirect\<close> of a nil pointer is the zero \<^verbatim>\<open>Value\<close>, and
  \<^verbatim>\<open>Type()\<close> on the zero \<^verbatim>\<open>Value\<close> panics.
\<close>

datatype Exemplar =
    NilInterface
  | Val GoType
  | Pointer GoType
  | NilPointer GoType

fun typeOf :: "Exemplar \<Rightarrow> error + GoType" where
  "typeOf NilInterface = Inl (Panic ''reflect: call of reflect.Value.Type on zero Value'')"
| "typeOf (Val t) = Inr t"
| "typeOf (Pointer t) = Inr t"
| "typeOf (NilPointer t) = Inl (Panic ''reflect: call of reflect.Value.Type on zero Value'')"

text \<open>
  \<^verbatim>\<open>Reg\<close>.  The Go map \<^verbatim>\<open>tn\<close> is a list of key/value pairs with no key twice; the
  order of the list is the order in which \<^verbatim>\<open>range\<close> runs over the map, which Go leaves
  open.  \<open>assign\<close> is \<^verbatim>\<open>m[k] = v\<close>.
\<close>

fun assign :: "'k \<Rightarrow> 'v \<Rightarrow> ('k \<times> 'v) list \<Rightarrow> ('k \<times> 'v) list" where
  "assign k v [] = [(k, v)]"
| "assign k v ((k', v') # m) = (if k' = k then (k, v) # m else (k', v') # assign k v m)"

record Reg =
  tn :: "(GoType \<times> gostring) list"

definition newReg :: Reg where
  "newReg = \<lparr>tn = []\<rparr>"

text \<open>\<^verbatim>\<open>Register\<close>, in the order of the code: the empty name, \<^verbatim>\<open>typeOf\<close>, the three
  reference types, the names registered so far, and then the assignment.\<close>

definition Register :: "Reg \<Rightarrow> gostring \<Rightarrow> Exemplar \<Rightarrow> error + Reg" where
  "Register r name val =
     (if name = [] then Inl (Panic ''empty name'')
      else case typeOf val of
        Inl e \<Rightarrow> Inl e
      | Inr typ \<Rightarrow>
          if typ = typeOfRef \<or> typ = typeOfRefs \<or> typ = typeOfDynamic
            then Inl (Panic ''can't register reference type'')
          else if name \<in> snd ` set (tn r)
            then Inl (Panic ''this name already registered'')
          else Inr (r\<lparr>tn := assign typ name (tn r)\<rparr>))"

definition typeName :: "Reg \<Rightarrow> GoType \<Rightarrow> gostring" where
  "typeName r typ =
     (case map_of (tn r) typ of
        Some name \<Rightarrow> name
      | None \<Rightarrow> if Type_Name typ \<noteq> [] then Type_Name typ else [])"

text \<open>\<^verbatim>\<open>strings.Split\<close> with a separator of one byte, and \<^verbatim>\<open>strings.HasPrefix\<close>.\<close>

fun Split :: "byte \<Rightarrow> gostring \<Rightarrow> gostring list" where
  "Split sep [] = [[]]"
| "Split sep (c # cs) =
     (if c = sep then [] # Split sep cs
      else (c # hd (Split sep cs)) # tl (Split sep cs))"

definition HasPrefix :: "gostring \<Rightarrow> gostring \<Rightarrow> bool" where
  "HasPrefix s pre = (take (length pre) s = pre)"

text \<open>\<^verbatim>\<open>TagSchemaName\<close>; \<open>TagSchemaName_for\<close> is its loop over the parts of the tag.\<close>

fun TagSchemaName_for :: "gostring list \<Rightarrow> error + gostring" where
  "TagSchemaName_for [] = Inl (ErrTag ''invalid skyobject tag'')"
| "TagSchemaName_for (part # parts) =
     (if \<not> HasPrefix part str_schema_eq then TagSchemaName_for parts
      else if length (Split chr_eq part) \<noteq> 2 then Inl (ErrTag ''invalid schema tag'')
      else if Split chr_eq part ! 1 = [] then Inl (ErrTag ''empty tag schema name'')
      else Inr (Split chr_eq part ! 1))"

definition TagSchemaName :: "StructTag \<Rightarrow> error + gostring" where
  "TagSchemaName tag =
     (if Tag_Get tag TAG = [] then Inl (ErrTag ''empty skyobject tag, expected schema=XXX'')
      else TagSchemaName_for (Split chr_comma (Tag_Get tag TAG)))"

definition mustTagSchemaName :: "StructTag \<Rightarrow> error + gostring" where
  "mustTagSchemaName tag =
     (case TagSchemaName tag of Inl e \<Rightarrow> Inl (PanicErr e) | Inr sch \<Rightarrow> Inr sch)"

text \<open>
  \<^verbatim>\<open>getSchema\<close> and \<^verbatim>\<open>getField\<close>; \<open>getSchema_for\<close> is the loop over the fields of a
  struct type.  A panic is the error of the result.  A basic type of a kind that
  \<^verbatim>\<open>getSchema\<close> has no case for is the panic at its end.
\<close>

definition placeholder :: "Schema \<Rightarrow> Schema" where
  \<comment> \<open>\<^verbatim>\<open>&schema{SchemaRef{}, s.Kind(), s.RawName()}\<close>\<close>
  "placeholder s = schema (Kind s) (RawName s)"

definition basic_kind :: "Kind \<Rightarrow> bool" where
  "basic_kind k =
     (k = reflect_Bool \<or> k = reflect_Int8 \<or> k = reflect_Uint8 \<or> k = reflect_Int16
      \<or> k = reflect_Uint16 \<or> k = reflect_Int32 \<or> k = reflect_Uint32 \<or> k = reflect_Float32
      \<or> k = reflect_Int64 \<or> k = reflect_Uint64 \<or> k = reflect_Float64 \<or> k = reflect_String)"

fun getSchema :: "Reg \<Rightarrow> GoType \<Rightarrow> error + Schema"
  and getSchema_for :: "Reg \<Rightarrow> StructField list \<Rightarrow> error + Field list"
  and getField :: "Reg \<Rightarrow> StructField \<Rightarrow> error + Field"
where
  "getSchema r typeOfDynamic =
     Inr (referenceSchema (Type_Kind typeOfDynamic) ReferenceTypeDynamic None)"
| "getSchema r typeOfRef = Inl (Panic ''Ref or Refs are not allowed in arrays and slices'')"
| "getSchema r typeOfRefs = Inl (Panic ''Ref or Refs are not allowed in arrays and slices'')"
| "getSchema r (TBasic k n) =
     (if basic_kind k then Inr (schema k (typeName r (TBasic k n)))
      else Inl (Panic ''invlaid type''))"
| "getSchema r (TSlice n e) =
     (case getSchema r e of
        Inl err \<Rightarrow> Inl err
      | Inr el \<Rightarrow>
          if IsRegistered el
            then Inr (sliceSchema reflect_Slice (typeName r (TSlice n e)) (placeholder el))
          else Inr (sliceSchema reflect_Slice (typeName r (TSlice n e)) el))"
| "getSchema r (TArray n l e) =
     (case getSchema r e of
        Inl err \<Rightarrow> Inl err
      | Inr el \<Rightarrow>
          if IsRegistered el
            then Inr (arraySchema reflect_Array (typeName r (TArray n l e)) l (placeholder el))
          else Inr (arraySchema reflect_Array (typeName r (TArray n l e)) l el))"
| "getSchema r (TStruct n sfs) =
     (case getSchema_for r sfs of
        Inl err \<Rightarrow> Inl err
      | Inr fs \<Rightarrow> Inr (structSchema reflect_Struct (typeName r (TStruct n sfs)) fs))"
| "getSchema_for r [] = Inr []"
| "getSchema_for r (sf # sfs) =
     (if Tag_Get (sf_Tag sf) str_enc = str_minus \<or> sf_PkgPath sf \<noteq> []
         \<or> sf_Name sf = str_underscore
        then getSchema_for r sfs
      else
        (case getField r sf of
           Inl err \<Rightarrow> Inl err
         | Inr f \<Rightarrow>
             (case getSchema_for r sfs of
                Inl err \<Rightarrow> Inl err
              | Inr fs \<Rightarrow> Inr (f # fs))))"
| "getField r (StructField name pkg tag t) =
     (if t = typeOfRef then
        (case mustTagSchemaName tag of
           Inl err \<Rightarrow> Inl err
         | Inr tagRef \<Rightarrow>
             Inr (field name (tag_raw tag)
                    (referenceSchema (Type_Kind t) ReferenceTypeSingle
                       (Some (schema reflect_Struct tagRef)))))
      else if t = typeOfRefs then
        (case mustTagSchemaName tag of
           Inl err \<Rightarrow> Inl err
         | Inr tagRef \<Rightarrow>
             Inr (field name (tag_raw tag)
                    (referenceSchema (Type_Kind t) ReferenceTypeSlice
                       (Some (schema reflect_Struct tagRef)))))
      else if t = typeOfDynamic then
        Inr (field name (tag_raw tag)
               (referenceSchema (Type_Kind t) ReferenceTypeDynamic None))
      else
        (case getSchema r t of
           Inl err \<Rightarrow> Inl err
         | Inr s \<Rightarrow>
             if IsRegistered s then Inr (field name (tag_raw tag) (placeholder s))
             else Inr (field name (tag_raw tag) s)))"

subsection \<open>When registration fails\<close>

lemma map_of_assign: "map_of (assign k v m) = (map_of m)(k \<mapsto> v)"
  by (induction m) (auto simp: fun_upd_twist)

lemma Split_nonempty: "Split sep s \<noteq> []"
  by (induction s) auto

lemma Split_single: "Split sep s = [a] \<Longrightarrow> s = a \<and> sep \<notin> set a"
proof (induction s arbitrary: a)
  case Nil
  then show ?case by simp
next
  case (Cons c cs)
  show ?case
  proof (cases "c = sep")
    case True
    with Cons.prems show ?thesis by (simp add: Split_nonempty)
  next
    case False
    with Cons.prems obtain a' where a: "a = c # a'" and s: "Split sep cs = [a']"
      using Split_nonempty[of sep cs] by (cases "Split sep cs") auto
    from Cons.IH[OF s] a False show ?thesis by auto
  qed
qed

lemma Split_pair: "Split sep s = [a, b] \<Longrightarrow> s = a @ sep # b \<and> sep \<notin> set a \<and> sep \<notin> set b"
proof (induction s arbitrary: a)
  case Nil
  then show ?case by simp
next
  case (Cons c cs)
  show ?case
  proof (cases "c = sep")
    case True
    with Cons.prems have "a = []" and "Split sep cs = [b]" by simp_all
    with Split_single[of sep cs b] True show ?thesis by simp
  next
    case False
    with Cons.prems obtain a' where a: "a = c # a'" and s: "Split sep cs = [a', b]"
      using Split_nonempty[of sep cs] by (cases "Split sep cs") auto
    from Cons.IH[OF s] a False show ?thesis by auto
  qed
qed

lemma schema_part:
  assumes "HasPrefix part str_schema_eq" "Split chr_eq part = [a, b]"
  shows "part = str_schema_eq @ b"
proof -
  from Split_pair[OF assms(2)] have p: "part = a @ chr_eq # b" and n: "chr_eq \<notin> set a"
    by simp_all
  have len: "length str_schema_eq = 7"
    by (simp add: str_schema_eq_def)
  from assms(1) have "take (length str_schema_eq) part = str_schema_eq"
    by (simp add: HasPrefix_def)
  then have t: "take 7 (a @ chr_eq # b) = str_schema_eq"
    by (simp only: len p)
  have "length a = 6"
  proof (rule ccontr)
    assume "length a \<noteq> 6"
    then consider "length a < 6" | "length a > 6" by linarith
    then show False
    proof cases
      case 1
      then have "take 7 (a @ chr_eq # b) ! length a = chr_eq"
        by (simp add: nth_append)
      moreover have "chr_eq \<notin> set (take 6 str_schema_eq)"
        by (simp add: str_schema_eq_def chr_eq_def)
      then have "str_schema_eq ! length a \<noteq> chr_eq"
        using 1 len nth_mem[of "length a" "take 6 str_schema_eq"] by auto
      ultimately show False using t by simp
    next
      case 2
      then have "take 7 (a @ chr_eq # b) ! 6 = a ! 6"
        by (simp add: nth_append)
      moreover have "str_schema_eq ! 6 = chr_eq"
        by (simp add: str_schema_eq_def chr_eq_def)
      ultimately have "a ! 6 = chr_eq" using t by simp
      with 2 n show False by (metis nth_mem)
    qed
  qed
  with t have "a @ [chr_eq] = str_schema_eq"
    by simp
  with p show ?thesis by simp
qed

lemma TagSchemaName_for_Inr:
  "TagSchemaName_for parts = Inr n \<Longrightarrow> n \<noteq> [] \<and> str_schema_eq @ n \<in> set parts"
proof (induction parts)
  case Nil
  then show ?case by simp
next
  case (Cons part parts)
  show ?case
  proof (cases "HasPrefix part str_schema_eq")
    case False
    with Cons show ?thesis by simp
  next
    case True
    with Cons.prems have l: "length (Split chr_eq part) = 2" and n: "Split chr_eq part ! 1 = n" "n \<noteq> []"
      by (auto split: if_splits)
    from l obtain a b where ab: "Split chr_eq part = [a, b]"
      by (cases "Split chr_eq part"; cases "tl (Split chr_eq part)") auto
    with n have "b = n" by simp
    with schema_part[OF True ab] n show ?thesis by simp
  qed
qed

lemma TagSchemaName_Inr:
  "TagSchemaName tag = Inr n \<Longrightarrow>
     n \<noteq> [] \<and> str_schema_eq @ n \<in> set (Split chr_comma (Tag_Get tag TAG))"
  by (auto simp: TagSchemaName_def split: if_splits dest: TagSchemaName_for_Inr)


lemma typeOf_Inl: "isl (typeOf val) \<longleftrightarrow> val = NilInterface \<or> (\<exists>t. val = NilPointer t)"
  by (cases val) auto

lemma Register_isl:
  "isl (Register r name val) \<longleftrightarrow>
     name = [] \<or> val = NilInterface \<or> (\<exists>t. val = NilPointer t)
     \<or> typeOf val = Inr typeOfRef \<or> typeOf val = Inr typeOfRefs
     \<or> typeOf val = Inr typeOfDynamic \<or> name \<in> snd ` set (tn r)"
  by (cases val) (auto simp add: Register_def)

lemma Register_Inr:
  assumes "\<not> isl (Register r name val)"
  shows "\<exists>typ. typeOf val = Inr typ
     \<and> Register r name val = Inr (r\<lparr>tn := assign typ name (tn r)\<rparr>)
     \<and> map_of (assign typ name (tn r)) typ = Some name"
  using assms by (cases val) (auto simp add: Register_def map_of_assign split: if_splits)

lemma getField_tag_panic:
  assumes "sf_Type sf = typeOfRef \<or> sf_Type sf = typeOfRefs" "TagSchemaName (sf_Tag sf) = Inl e"
  shows "getField g sf = Inl (PanicErr e)"
  using assms by (cases sf) (auto simp add: mustTagSchemaName_def)

lemma TagSchemaName_lacks:
  assumes "\<not> (\<exists>n. n \<noteq> [] \<and> str_schema_eq @ n \<in> set (Split chr_comma (Tag_Get tag TAG)))"
  shows "isl (TagSchemaName tag)"
proof (cases "TagSchemaName tag")
  case (Inl e)
  then show ?thesis by simp
next
  case (Inr n)
  from TagSchemaName_Inr[OF Inr] assms show ?thesis by blast
qed

text \<open>Two empty struct types named \<^verbatim>\<open>U\<close> and \<^verbatim>\<open>V\<close>, and a Single reference field
  \<^verbatim>\<open>F\<close> with no tag.\<close>

definition unit_type :: GoType where
  "unit_type = TStruct [85] []"

definition other_type :: GoType where
  "other_type = TStruct [86] []"

definition untagged_field :: StructField where
  "untagged_field = StructField [70] [] (StructTag [] []) typeOfRef"

text \<open>
  C9, as stated, fails: \<^verbatim>\<open>Register\<close> also panics on a \<^verbatim>\<open>nil\<close> exemplar, whose name is
  not empty and not yet registered and which has no type at all, so none of the three
  listed conditions holds.
\<close>

theorem Register_nil_counterexample:
  "Register newReg [65] NilInterface
     = Inl (Panic ''reflect: call of reflect.Value.Type on zero Value'')
   \<and> [65] \<noteq> ([] :: gostring)
   \<and> [65] \<notin> snd ` set (tn newReg)
   \<and> typeOf NilInterface \<noteq> Inr typeOfRef \<and> typeOf NilInterface \<noteq> Inr typeOfRefs
   \<and> typeOf NilInterface \<noteq> Inr typeOfDynamic"
  by (simp add: Register_def newReg_def)

text \<open>
  The name check of \<^verbatim>\<open>Register\<close> runs over the values that the table holds at the time
  of the call, and the assignment \<^verbatim>\<open>r.tn[typ] = name\<close> replaces the name of a type that is
  registered again.  A name that was registered on this \<^verbatim>\<open>Reg\<close> and has since been
  displaced is therefore free: after \<^verbatim>\<open>A\<close> and then \<^verbatim>\<open>B\<close> are registered for the type
  \<^verbatim>\<open>U\<close>, the name \<^verbatim>\<open>A\<close> is registered for the type \<^verbatim>\<open>V\<close> without a panic, although
  \<^verbatim>\<open>A\<close> was already registered on the same \<^verbatim>\<open>Reg\<close>.
\<close>

theorem Register_displaced_name:
  "Register newReg [65] (Val unit_type) = Inr \<lparr>tn = [(unit_type, [65])]\<rparr>
   \<and> Register \<lparr>tn = [(unit_type, [65])]\<rparr> [66] (Val unit_type) = Inr \<lparr>tn = [(unit_type, [66])]\<rparr>
   \<and> Register \<lparr>tn = [(unit_type, [66])]\<rparr> [65] (Val other_type)
       = Inr \<lparr>tn = [(unit_type, [66]), (other_type, [65])]\<rparr>"
  by (simp add: Register_def newReg_def unit_type_def other_type_def)

text \<open>
  C9, amended.  \<^verbatim>\<open>Register\<close> panics exactly when the name is empty, the exemplar is
  \<^verbatim>\<open>nil\<close> or a \<^verbatim>\<open>nil\<close> pointer (no type can be taken from it), the type is one of the
  three reference-wrapper types, or the name is held in the table at the time of the call,
  as the name of some type (a name that a later registration of its type has displaced is
  not held any more); on every other input it succeeds and records the name under the
  type.  Building the field schema of a Single or Slice reference field panics with the
  error of \<^verbatim>\<open>TagSchemaName\<close> whenever that fails, and \<^verbatim>\<open>TagSchemaName\<close> fails on every tag
  whose \<^verbatim>\<open>skyobject\<close> value has no part of the form \<^verbatim>\<open>schema=NAME\<close> with a name that
  is not empty.
\<close>

theorem Register_fails_exactly:
  "(isl (Register r name val) \<longleftrightarrow>
      name = [] \<or> val = NilInterface \<or> (\<exists>t. val = NilPointer t)
      \<or> typeOf val = Inr typeOfRef \<or> typeOf val = Inr typeOfRefs
      \<or> typeOf val = Inr typeOfDynamic \<or> name \<in> snd ` set (tn r))
   \<and> (\<not> isl (Register r name val) \<longrightarrow>
        (\<exists>typ. typeOf val = Inr typ
           \<and> Register r name val = Inr (r\<lparr>tn := assign typ name (tn r)\<rparr>)
           \<and> map_of (assign typ name (tn r)) typ = Some name))
   \<and> ((sf_Type sf = typeOfRef \<or> sf_Type sf = typeOfRefs)
        \<and> TagSchemaName (sf_Tag sf) = Inl e
        \<longrightarrow> getField g sf = Inl (PanicErr e))
   \<and> (\<not> (\<exists>n. n \<noteq> [] \<and> str_schema_eq @ n \<in> set (Split chr_comma (Tag_Get tag TAG)))
        \<longrightarrow> isl (TagSchemaName tag))"
  using Register_isl[of r name val] Register_Inr[of r name val]
    getField_tag_panic[of sf e g] TagSchemaName_lacks[of tag]
  by blast

theorem Register_fails_exactly_witness:
  "\<not> isl (Register newReg [65] (Val unit_type))
   \<and> Register newReg [65] (Val unit_type) = Inr \<lparr>tn = [(unit_type, [65])]\<rparr>
   \<and> sf_Type untagged_field = typeOfRef
   \<and> TagSchemaName (sf_Tag untagged_field)
        = Inl (ErrTag ''empty skyobject tag, expected schema=XXX'')
   \<and> getField newReg untagged_field
        = Inl (PanicErr (ErrTag ''empty skyobject tag, expected schema=XXX''))
   \<and> \<not> (\<exists>n. n \<noteq> [] \<and> str_schema_eq @ n
                \<in> set (Split chr_comma (Tag_Get (StructTag [] []) TAG)))
   \<and> isl (TagSchemaName (StructTag [] []))"
proof -
  have a: "\<not> isl (Register newReg [65] (Val unit_type))"
    by (simp add: Register_def newReg_def unit_type_def)
  have b: "TagSchemaName (sf_Tag untagged_field)
        = Inl (ErrTag ''empty skyobject tag, expected schema=XXX'')"
    by (simp add: untagged_field_def TagSchemaName_def Tag_Get_def)
  have c: "sf_Type untagged_field = typeOfRef"
    by (simp add: untagged_field_def)
  have d: "\<not> (\<exists>n. n \<noteq> [] \<and> str_schema_eq @ n
                \<in> set (Split chr_comma (Tag_Get (StructTag [] []) TAG)))"
    by (simp add: Tag_Get_def str_schema_eq_def)
  show ?thesis
    using Register_fails_exactly[of newReg "[65]" "Val unit_type" untagged_field
        "ErrTag ''empty skyobject tag, expected schema=XXX''" newReg "StructTag [] []"]
      a b c d
    by (auto simp add: newReg_def)
qed

section \<open>The registry\<close>

text \<open>
  \<^verbatim>\<open>fillSchema\<close> assigns to the \<^verbatim>\<open>elem\<close> and \<^verbatim>\<open>schema\<close> fields of schema objects
  that are reachable from several places, and keys its visited set by the identity of the
  object, so the schemas of a registry are held in a store: an address is an index into
  the list of objects, and an object is one of the five schema structs with addresses
  where the struct has pointers (a \<^verbatim>\<open>Schema\<close> interface value that is not \<^verbatim>\<open>nil\<close>).
  The fields of a struct schema are held in the struct object.
\<close>

type_synonym addr = nat

datatype obj =
    Oschema Kind gostring
  | OsliceSchema Kind gostring addr
  | OarraySchema Kind gostring nat addr
  | OstructSchema Kind gostring "(gostring \<times> gostring \<times> addr) list"
  | OreferenceSchema Kind ReferenceType "addr option"

type_synonym heap = "obj list"

definition deref :: "heap \<Rightarrow> addr \<Rightarrow> obj option" where
  "deref h a = (if a < length h then Some (h ! a) else None)"

text \<open>Modelled from the spec: the methods of \<^verbatim>\<open>Schema\<close> on an object of the store, as
  on the schema model above.\<close>

fun obj_IsReference :: "obj \<Rightarrow> bool" where
  "obj_IsReference (OreferenceSchema k t e) = True"
| "obj_IsReference _ = False"

fun obj_ReferenceType :: "obj \<Rightarrow> ReferenceType" where
  "obj_ReferenceType (OreferenceSchema k t e) = t"
| "obj_ReferenceType _ = ReferenceTypeNone"

fun obj_Kind :: "obj \<Rightarrow> Kind" where
  "obj_Kind (Oschema k n) = k"
| "obj_Kind (OsliceSchema k n e) = k"
| "obj_Kind (OarraySchema k n l e) = k"
| "obj_Kind (OstructSchema k n fs) = k"
| "obj_Kind (OreferenceSchema k t e) = k"

fun obj_Name :: "obj \<Rightarrow> gostring" where
  "obj_Name (Oschema k n) = n"
| "obj_Name (OsliceSchema k n e) = n"
| "obj_Name (OarraySchema k n l e) = n"
| "obj_Name (OstructSchema k n fs) = n"
| "obj_Name (OreferenceSchema k t e) = []"

definition obj_IsRegistered :: "obj \<Rightarrow> bool" where
  "obj_IsRegistered ob = (0 < length (obj_Name ob))"

fun obj_Fields :: "obj \<Rightarrow> (gostring \<times> gostring \<times> addr) list" where
  "obj_Fields (OstructSchema k n fs) = fs"
| "obj_Fields _ = []"

text \<open>Building a schema allocates its objects: \<open>store\<close> puts a schema that
  \<^verbatim>\<open>getSchema\<close> or \<^verbatim>\<open>decodeSchema\<close> has built into the store and returns its
  address.\<close>

fun store :: "Schema \<Rightarrow> heap \<Rightarrow> addr \<times> heap"
  and store_fields :: "Field list \<Rightarrow> heap \<Rightarrow> (gostring \<times> gostring \<times> addr) list \<times> heap"
where
  "store (schema k n) h = (length h, h @ [Oschema k n])"
| "store (sliceSchema k n e) h =
     (case store e h of (a, h') \<Rightarrow> (length h', h' @ [OsliceSchema k n a]))"
| "store (arraySchema k n l e) h =
     (case store e h of (a, h') \<Rightarrow> (length h', h' @ [OarraySchema k n l a]))"
| "store (structSchema k n fs) h =
     (case store_fields fs h of (ofs, h') \<Rightarrow> (length h', h' @ [OstructSchema k n ofs]))"
| "store (referenceSchema k t None) h = (length h, h @ [OreferenceSchema k t None])"
| "store (referenceSchema k t (Some e)) h =
     (case store e h of (a, h') \<Rightarrow> (length h', h' @ [OreferenceSchema k t (Some a)]))"
| "store_fields [] h = ([], h)"
| "store_fields (field n t s # fs) h =
     (case store s h of (a, h') \<Rightarrow>
        (case store_fields fs h' of (ofs, h'') \<Rightarrow> ((n, t, a) # ofs, h'')))"

text \<open>
  \<^verbatim>\<open>Registry\<close>.  The Go maps are lists of pairs as in \<open>Reg\<close>; \<open>mem\<close> is the store
  that the addresses in \<open>reg\<close> and \<open>srf\<close> point into;
  \<open>rdone\<close> and \<open>rtn\<close> are the fields \<^verbatim>\<open>done\<close> and \<^verbatim>\<open>tn\<close>.
\<close>

record Registry =
  rdone :: bool
  ref :: "byte list"
  reg :: "(gostring \<times> addr) list"
  srf :: "(byte list \<times> addr) list"
  nt :: "(gostring \<times> GoType) list"
  rtn :: "(GoType \<times> gostring) list"
  mem :: heap

definition newRegistry :: Registry where
  "newRegistry = \<lparr>rdone = False, ref = [], reg = [], srf = [], nt = [], rtn = [], mem = []\<rparr>"

definition schemaByName :: "Registry \<Rightarrow> gostring \<Rightarrow> error + addr" where
  "schemaByName r name =
     (case map_of (reg r) name of
        None \<Rightarrow> Inl (ErrMissingSchema name)
      | Some s \<Rightarrow> Inr s)"

definition SchemaByName :: "Registry \<Rightarrow> gostring \<Rightarrow> error + addr" where
  "SchemaByName r name = schemaByName r name"

definition SchemaByReference :: "Registry \<Rightarrow> byte list \<Rightarrow> error + addr" where
  "SchemaByReference r sr =
     (case map_of (srf r) sr of
        None \<Rightarrow> Inl (ErrMissingSchema sr)
      | Some s \<Rightarrow> Inr s)"

subsection \<open>Resolving placeholders\<close>

text \<open>
  A run of \<^verbatim>\<open>fillSchema\<close> either returns, panics or does not end; the result is
  \<open>None\<close> when the calls nest deeper than the first argument allows, the panic, or the
  store and the visited set after the call.  \<open>fillSchema_for\<close> is the loop over the
  fields of a struct, by index.  An assertion \<^verbatim>\<open>s.(*arraySchema)\<close> on an object of
  another struct type panics, as does a method call through a pointer that is
  \<^verbatim>\<open>nil\<close>.
\<close>

type_synonym fill_state = "heap \<times> addr set"

definition by_name :: "(gostring \<times> addr) list \<Rightarrow> gostring \<Rightarrow> error + addr" where
  \<comment> \<open>\<^verbatim>\<open>r.schemaByName\<close>, given the map\<close>
  "by_name m name =
     (case map_of m name of
        None \<Rightarrow> Inl (ErrMissingSchema name)
      | Some s \<Rightarrow> Inr s)"

fun fillSchema :: "nat \<Rightarrow> (gostring \<times> addr) list \<Rightarrow> addr \<Rightarrow> fill_state \<Rightarrow> (error + fill_state) option"
  and fillSchema_for ::
    "nat \<Rightarrow> (gostring \<times> addr) list \<Rightarrow> addr \<Rightarrow> nat list \<Rightarrow> fill_state \<Rightarrow> (error + fill_state) option"
where
  "fillSchema 0 m s st = None"
| "fillSchema (Suc n) m s (h, filled) =
     (if s \<in> filled then Some (Inr (h, filled))
      else
        (case deref h s of
           None \<Rightarrow> Some (Inl PanicNilDereference)
         | Some ob \<Rightarrow>
             if obj_IsReference ob then
               (if obj_ReferenceType ob = ReferenceTypeSingle
                   \<or> obj_ReferenceType ob = ReferenceTypeSlice then
                  (case ob of
                     OreferenceSchema k t (Some ea) \<Rightarrow>
                       (case deref h ea of
                          None \<Rightarrow> Some (Inl PanicNilDereference)
                        | Some eo \<Rightarrow>
                            (case by_name m (obj_Name eo) of
                               Inl err \<Rightarrow> Some (Inl (PanicErr err))
                             | Inr a \<Rightarrow>
                                 fillSchema n m a
                                   (h[s := OreferenceSchema k t (Some a)], insert s filled)))
                   | _ \<Rightarrow> Some (Inl PanicNilDereference))
                else if obj_ReferenceType ob = ReferenceTypeDynamic then
                  Some (Inr (h, insert s filled))
                else Some (Inl (Panic ''invalid reference'')))
             else if obj_Kind ob = reflect_Array then
               (case ob of
                  OarraySchema k nm l ea \<Rightarrow>
                    (case deref h ea of
                       None \<Rightarrow> Some (Inl PanicNilDereference)
                     | Some eo \<Rightarrow>
                         if obj_IsRegistered eo then
                           (case by_name m (obj_Name eo) of
                              Inl err \<Rightarrow> Some (Inl (PanicErr err))
                            | Inr a \<Rightarrow>
                                fillSchema n m a
                                  (h[s := OarraySchema k nm l a], insert s filled))
                         else fillSchema n m ea (h, insert s filled))
                | _ \<Rightarrow> Some (Inl (Panic ''interface conversion'')))
             else if obj_Kind ob = reflect_Slice then
               (case ob of
                  OsliceSchema k nm ea \<Rightarrow>
                    (case deref h ea of
                       None \<Rightarrow> Some (Inl PanicNilDereference)
                     | Some eo \<Rightarrow>
                         if obj_IsRegistered eo then
                           (case by_name m (obj_Name eo) of
                              Inl err \<Rightarrow> Some (Inl (PanicErr err))
                            | Inr a \<Rightarrow>
                                fillSchema n m a
                                  (h[s := OsliceSchema k nm a], insert s filled))
                         else fillSchema n m ea (h, insert s filled))
                | _ \<Rightarrow> Some (Inl (Panic ''interface conversion'')))
             else if obj_Kind ob = reflect_Struct then
               fillSchema_for n m s [0..<length (obj_Fields ob)] (h, insert s filled)
             else Some (Inr (h, insert s filled))))"
| "fillSchema_for n m s [] st = Some (Inr st)"
| "fillSchema_for n m s (i # is) (h, filled) =
     (case deref h s of
        Some (OstructSchema k nm fs) \<Rightarrow>
          if i < length fs then
            (case fs ! i of (fname, ftag, fa) \<Rightarrow>
               (case deref h fa of
                  None \<Rightarrow> Some (Inl PanicNilDereference)
                | Some fo \<Rightarrow>
                    if obj_IsRegistered fo then
                      (case by_name m (obj_Name fo) of
                         Inl err \<Rightarrow> Some (Inl (PanicErr err))
                       | Inr a \<Rightarrow>
                           (case fillSchema n m a
                                   (h[s := OstructSchema k nm (fs[i := (fname, ftag, a)])],
                                    filled) of
                              None \<Rightarrow> None
                            | Some (Inl e) \<Rightarrow> Some (Inl e)
                            | Some (Inr st') \<Rightarrow> fillSchema_for n m s is st'))
                    else
                      (case fillSchema n m fa (h, filled) of
                         None \<Rightarrow> None
                       | Some (Inl e) \<Rightarrow> Some (Inl e)
                       | Some (Inr st') \<Rightarrow> fillSchema_for n m s is st')))
          else Some (Inl (Panic ''index out of range''))
      | _ \<Rightarrow> Some (Inl (Panic ''interface conversion'')))"

subsection \<open>Encoding schemas and the registry\<close>

text \<open>\<open>None\<close> for a run that does not end, the panic, or the value.\<close>

definition bindO :: "(error + 'a) option \<Rightarrow> ('a \<Rightarrow> (error + 'b) option) \<Rightarrow> (error + 'b) option" where
  "bindO m f = (case m of None \<Rightarrow> None | Some (Inl e) \<Rightarrow> Some (Inl e) | Some (Inr x) \<Rightarrow> f x)"

text \<open>Modelled from the spec: \<^verbatim>\<open>encoder.Serialize\<close> on the two wire structs of the
  schema codec and on the list of registry entries (a name and the encoded schema
  each).\<close>

definition Serialize_encodedSchema :: "encodedSchema \<Rightarrow> byte list" where
  "Serialize_encodedSchema x =
     put_uint32 (es_ReferenceType x) @ put_uint32 (es_Kind x) @ put_bytes (es_Name x)
     @ put_uint32 (es_Len x)
     @ put_uint32 (length (es_Fields x)) @ concat (map put_bytes (es_Fields x))
     @ put_bytes (es_Elem x)"

definition Serialize_encodedField :: "encodedField \<Rightarrow> byte list" where
  "Serialize_encodedField x = put_bytes (ef_Name x) @ put_bytes (ef_Tag x) @ put_bytes (ef_Schema x)"

definition Serialize_registryEntities :: "(gostring \<times> byte list) list \<Rightarrow> byte list" where
  "Serialize_registryEntities ent =
     put_uint32 (length ent) @ concat (map (\<lambda>(name, sch). put_bytes name @ put_bytes sch) ent)"

text \<open>Modelled from the spec: \<^verbatim>\<open>Schema.Encode\<close>, whose body is not among the sources.
  The encoding is the discriminator, the kind, the name and the payload of the variant:
  the length of an array, the fields of a struct (name, tag and schema each), the
  element of a slice, an array or a reference.  An element or field schema that is itself
  named is written as its placeholder, kind and name only; any other is written in
  full.\<close>

definition Encode_plain :: "Kind \<Rightarrow> gostring \<Rightarrow> byte list" where
  "Encode_plain k n =
     Serialize_encodedSchema \<lparr>es_ReferenceType = ReferenceTypeNone, es_Kind = k, es_Name = n,
       es_Len = 0, es_Fields = [], es_Elem = []\<rparr>"

fun Schema_Encode :: "Schema \<Rightarrow> byte list"
  and Fields_Encode :: "Field list \<Rightarrow> byte list list"
where
  "Schema_Encode (schema k n) = Encode_plain k n"
| "Schema_Encode (sliceSchema k n e) =
     Serialize_encodedSchema \<lparr>es_ReferenceType = ReferenceTypeNone, es_Kind = k, es_Name = n,
       es_Len = 0, es_Fields = [],
       es_Elem = (if IsRegistered e then Encode_plain (Kind e) (RawName e)
                  else Schema_Encode e)\<rparr>"
| "Schema_Encode (arraySchema k n l e) =
     Serialize_encodedSchema \<lparr>es_ReferenceType = ReferenceTypeNone, es_Kind = k, es_Name = n,
       es_Len = l, es_Fields = [],
       es_Elem = (if IsRegistered e then Encode_plain (Kind e) (RawName e)
                  else Schema_Encode e)\<rparr>"
| "Schema_Encode (structSchema k n fs) =
     Serialize_encodedSchema \<lparr>es_ReferenceType = ReferenceTypeNone, es_Kind = k, es_Name = n,
       es_Len = 0, es_Fields = Fields_Encode fs, es_Elem = []\<rparr>"
| "Schema_Encode (referenceSchema k t None) =
     Serialize_encodedSchema \<lparr>es_ReferenceType = t, es_Kind = k, es_Name = [],
       es_Len = 0, es_Fields = [], es_Elem = []\<rparr>"
| "Schema_Encode (referenceSchema k t (Some e)) =
     Serialize_encodedSchema \<lparr>es_ReferenceType = t, es_Kind = k, es_Name = [],
       es_Len = 0, es_Fields = [],
       es_Elem = (if IsRegistered e then Encode_plain (Kind e) (RawName e)
                  else Schema_Encode e)\<rparr>"
| "Fields_Encode [] = []"
| "Fields_Encode (field n t s # fs) =
     Serialize_encodedField \<lparr>ef_Name = n, ef_Tag = t,
       ef_Schema = (if IsRegistered s then Encode_plain (Kind s) (RawName s)
                    else Schema_Encode s)\<rparr>
     # Fields_Encode fs"

text \<open>Modelled from the spec: the same encoding read from the store.  The registry's
  schemas may point at each other in a cycle after \<^verbatim>\<open>fillSchema\<close>, so the depth of
  the calls is bounded by the first argument.\<close>

fun Encode_obj :: "nat \<Rightarrow> heap \<Rightarrow> addr \<Rightarrow> (error + byte list) option"
  and Encode_elem :: "nat \<Rightarrow> heap \<Rightarrow> addr \<Rightarrow> (error + byte list) option"
  and Encode_fields ::
    "nat \<Rightarrow> heap \<Rightarrow> (gostring \<times> gostring \<times> addr) list \<Rightarrow> (error + byte list list) option"
where
  "Encode_obj 0 h a = None"
| "Encode_obj (Suc n) h a =
     (case deref h a of
        None \<Rightarrow> Some (Inl PanicNilDereference)
      | Some (Oschema k nm) \<Rightarrow> Some (Inr (Encode_plain k nm))
      | Some (OsliceSchema k nm ea) \<Rightarrow>
          bindO (Encode_elem n h ea) (\<lambda>el. Some (Inr (Serialize_encodedSchema
            \<lparr>es_ReferenceType = ReferenceTypeNone, es_Kind = k, es_Name = nm,
             es_Len = 0, es_Fields = [], es_Elem = el\<rparr>)))
      | Some (OarraySchema k nm l ea) \<Rightarrow>
          bindO (Encode_elem n h ea) (\<lambda>el. Some (Inr (Serialize_encodedSchema
            \<lparr>es_ReferenceType = ReferenceTypeNone, es_Kind = k, es_Name = nm,
             es_Len = l, es_Fields = [], es_Elem = el\<rparr>)))
      | Some (OstructSchema k nm fs) \<Rightarrow>
          bindO (Encode_fields n h fs) (\<lambda>efs. Some (Inr (Serialize_encodedSchema
            \<lparr>es_ReferenceType = ReferenceTypeNone, es_Kind = k, es_Name = nm,
             es_Len = 0, es_Fields = efs, es_Elem = []\<rparr>)))
      | Some (OreferenceSchema k t None) \<Rightarrow>
          Some (Inr (Serialize_encodedSchema
            \<lparr>es_ReferenceType = t, es_Kind = k, es_Name = [],
             es_Len = 0, es_Fields = [], es_Elem = []\<rparr>))
      | Some (OreferenceSchema k t (Some ea)) \<Rightarrow>
          bindO (Encode_elem n h ea) (\<lambda>el. Some (Inr (Serialize_encodedSchema
            \<lparr>es_ReferenceType = t, es_Kind = k, es_Name = [],
             es_Len = 0, es_Fields = [], es_Elem = el\<rparr>))))"
| "Encode_elem n h ea =
     (case deref h ea of
        None \<Rightarrow> Some (Inl PanicNilDereference)
      | Some eo \<Rightarrow>
          if obj_IsRegistered eo then Some (Inr (Encode_plain (obj_Kind eo) (obj_Name eo)))
          else Encode_obj n h ea)"
| "Encode_fields n h [] = Some (Inr [])"
| "Encode_fields n h ((fname, ftag, fa) # fs) =
     bindO (Encode_elem n h fa) (\<lambda>sch.
     bindO (Encode_fields n h fs) (\<lambda>efs.
       Some (Inr (Serialize_encodedField \<lparr>ef_Name = fname, ef_Tag = ftag, ef_Schema = sch\<rparr>
                  # efs))))"

text \<open>
  \<^verbatim>\<open>Registry.Encode\<close>.  \<open>entities\<close> is the loop over the map, in the order of the
  list; \<^verbatim>\<open>sort.Sort\<close> orders the entries by name, and Go compares strings byte by
  byte.  No name stands twice in the entries of a map, so it does not matter that
  \<^verbatim>\<open>sort.Sort\<close> is not stable.  An empty list of entries is serialised as its count, so
  both branches of the code write the same bytes.
\<close>

fun entities :: "nat \<Rightarrow> heap \<Rightarrow> (gostring \<times> addr) list \<Rightarrow> (error + (gostring \<times> byte list) list) option" where
  "entities n h [] = Some (Inr [])"
| "entities n h ((name, sch) # m) =
     bindO (Encode_obj n h sch) (\<lambda>b.
     bindO (entities n h m) (\<lambda>ent. Some (Inr ((name, b) # ent))))"

definition Registry_Encode :: "nat \<Rightarrow> Registry \<Rightarrow> (error + byte list) option" where
  "Registry_Encode n r =
     (if length (reg r) = 0 then Some (Inr (Serialize_registryEntities []))
      else bindO (entities n (mem r) (reg r)) (\<lambda>ent.
             Some (Inr (Serialize_registryEntities (sort_key fst ent)))))"


subsection \<open>Building and decoding a registry\<close>

text \<open>
  \<^verbatim>\<open>finialize\<close>: the three passes over the map.  \<open>H\<close> is \<^verbatim>\<open>cipher.SumSHA256\<close>;
  \<^verbatim>\<open>sch.Reference()\<close> is the digest of \<^verbatim>\<open>sch.Encode()\<close>.
\<close>

fun finialize_fill ::
  "nat \<Rightarrow> (gostring \<times> addr) list \<Rightarrow> (gostring \<times> addr) list \<Rightarrow> fill_state \<Rightarrow> (error + fill_state) option" where
  "finialize_fill n m [] st = Some (Inr st)"
| "finialize_fill n m ((name, sch) # rest) st =
     bindO (fillSchema n m sch st) (finialize_fill n m rest)"

fun finialize_srf ::
  "(byte list \<Rightarrow> byte list) \<Rightarrow> nat \<Rightarrow> (gostring \<times> addr) list \<Rightarrow> Registry \<Rightarrow> (error + Registry) option" where
  "finialize_srf H n [] r = Some (Inr r)"
| "finialize_srf H n ((name, sch) # rest) r =
     bindO (Encode_obj n (mem r) sch) (\<lambda>b.
       finialize_srf H n rest (r\<lparr>srf := assign (H b) sch (srf r)\<rparr>))"

definition finialize :: "(byte list \<Rightarrow> byte list) \<Rightarrow> nat \<Rightarrow> Registry \<Rightarrow> (error + Registry) option" where
  "finialize H n r =
     bindO (finialize_fill n (reg r) (reg r) (mem r, {})) (\<lambda>(h, filled).
     bindO (finialize_srf H n (reg r) (r\<lparr>mem := h\<rparr>)) (\<lambda>r'.
     bindO (Registry_Encode n r') (\<lambda>encoded.
       Some (Inr (r'\<lparr>ref := H encoded\<rparr>)))))"

text \<open>\<^verbatim>\<open>Registry.register\<close>: the loop over \<^verbatim>\<open>reg.tn\<close>.\<close>

fun register_for :: "Reg \<Rightarrow> (GoType \<times> gostring) list \<Rightarrow> Registry \<Rightarrow> error + Registry" where
  "register_for g [] r = Inr r"
| "register_for g ((typ, name) # rest) r =
     (case getSchema g typ of
        Inl e \<Rightarrow> Inl e
      | Inr s \<Rightarrow>
          if \<not> IsRegistered s then Inl (Panic ''can't register type'')
          else
            (case store s (mem r) of (a, h) \<Rightarrow>
               register_for g rest
                 (r\<lparr>nt := assign name typ (nt r), reg := assign name a (reg r), mem := h\<rparr>)))"

definition register :: "Registry \<Rightarrow> Reg \<Rightarrow> error + Registry" where
  "register r g = register_for g (tn g) (r\<lparr>rtn := tn g\<rparr>)"

text \<open>\<^verbatim>\<open>NewRegistry\<close>; \<open>cl\<close> is the function that registers the types.\<close>

definition NewRegistry ::
  "(byte list \<Rightarrow> byte list) \<Rightarrow> nat \<Rightarrow> (Reg \<Rightarrow> error + Reg) \<Rightarrow> (error + Registry) option" where
  "NewRegistry H n cl =
     (case cl newReg of
        Inl e \<Rightarrow> Some (Inl e)
      | Inr g \<Rightarrow>
          (case register (newRegistry\<lparr>nt := []\<rparr>) g of
             Inl e \<Rightarrow> Some (Inl e)
           | Inr r \<Rightarrow> finialize H n r))"

text \<open>Modelled from the spec: \<^verbatim>\<open>encoder.DeserializeRaw\<close> into the list of registry
  entries.\<close>

fun get_entities :: "nat \<Rightarrow> byte list \<Rightarrow> error + (gostring \<times> byte list) list \<times> byte list" where
  "get_entities 0 p = Inr ([], p)"
| "get_entities (Suc n) p =
     bindE (get_bytes p) (\<lambda>(name, p1).
     bindE (get_bytes p1) (\<lambda>(sch, p2).
     bindE (get_entities n p2) (\<lambda>(res, p3). Inr ((name, sch) # res, p3))))"

definition DeserializeRaw_registryEntities :: "byte list \<Rightarrow> error + (gostring \<times> byte list) list" where
  "DeserializeRaw_registryEntities b =
     bindE (get_uint32 b) (\<lambda>(n, b1).
     bindE (get_entities n b1) (\<lambda>(res, b2). Inr res))"

text \<open>
  \<^verbatim>\<open>DecodeRegistry\<close>.  The loop assigns \<^verbatim>\<open>s, err = decodeSchema(re.Schema)\<close> and goes
  on without looking at \<^verbatim>\<open>err\<close>: when the decoding failed, \<^verbatim>\<open>s\<close> is \<^verbatim>\<open>nil\<close>, it is
  stored under the name, and \<^verbatim>\<open>s.Reference()\<close> is a method call on a \<^verbatim>\<open>nil\<close>
  interface, which panics.  When the decoding succeeded, \<^verbatim>\<open>err\<close> is \<^verbatim>\<open>nil\<close>, and so
  it is \<^verbatim>\<open>nil\<close> at the final \<^verbatim>\<open>return\<close>.
\<close>

fun DecodeRegistry_for ::
  "(byte list \<Rightarrow> byte list) \<Rightarrow> (gostring \<times> byte list) list \<Rightarrow> Registry \<Rightarrow> error + Registry" where
  "DecodeRegistry_for H [] r = Inr r"
| "DecodeRegistry_for H ((name, sch) # rest) r =
     (case decodeSchema sch of
        Inl err \<Rightarrow> Inl PanicNilDereference
      | Inr s \<Rightarrow>
          (case store s (mem r) of (a, h) \<Rightarrow>
             DecodeRegistry_for H rest
               (r\<lparr>reg := assign name a (reg r),
                  srf := assign (H (Schema_Encode s)) a (srf r), mem := h\<rparr>)))"

definition DecodeRegistry ::
  "(byte list \<Rightarrow> byte list) \<Rightarrow> nat \<Rightarrow> byte list \<Rightarrow> (error + Registry) option" where
  "DecodeRegistry H n b =
     (case DeserializeRaw_registryEntities b of
        Inl err \<Rightarrow> Some (Inl err)
      | Inr res \<Rightarrow>
          (case DecodeRegistry_for H res newRegistry of
             Inl e \<Rightarrow> Some (Inl e)
           | Inr r \<Rightarrow> finialize H n r))"

section \<open>Properties of the registry\<close>

subsection \<open>DecodeRegistry and a failing entry\<close>

text \<open>
  A stand-in for cipher.SumSHA256 in concrete runs: the bytes themselves.
\<close>

definition id_digest :: "byte list \<Rightarrow> byte list" where
  "id_digest b = b"

lemma bindO_simps [simp]:
  "bindO None f = None" "bindO (Some (Inl e)) f = Some (Inl e)" "bindO (Some (Inr x)) f = f x"
  by (simp_all add: bindO_def)

lemma get_entities_Serialize:
  assumes "\<forall>(name, sch)\<in>set ent. length name < 2 ^ 32 \<and> length sch < 2 ^ 32"
  shows "get_entities (length ent)
           (concat (map (\<lambda>(name, sch). put_bytes name @ put_bytes sch) ent) @ r) = Inr (ent, r)"
  using assms
proof (induction ent)
  case Nil
  show ?case by simp
next
  case (Cons x ent)
  obtain name sch where x: "x = (name, sch)" by (cases x)
  with Cons.prems have l: "length name < 2 ^ 32" "length sch < 2 ^ 32" by simp_all
  from Cons have ih: "get_entities (length ent)
           (concat (map (\<lambda>(name, sch). put_bytes name @ put_bytes sch) ent) @ r) = Inr (ent, r)"
    by simp
  show ?case
    by (simp add: x get_bytes_put[OF l(1)] get_bytes_put[OF l(2)] ih)
qed

lemma DeserializeRaw_registryEntities_Serialize:
  assumes "length ent < 2 ^ 32"
    "\<forall>(name, sch)\<in>set ent. length name < 2 ^ 32 \<and> length sch < 2 ^ 32"
  shows "DeserializeRaw_registryEntities (Serialize_registryEntities ent) = Inr ent"
  using get_entities_Serialize[OF assms(2), of "[]"] assms(1)
  by (simp add: DeserializeRaw_registryEntities_def Serialize_registryEntities_def get_uint32_put)

lemma DecodeRegistry_for_fails:
  assumes "(name, sch) \<in> set res" "decodeSchema sch = Inl err"
  shows "DecodeRegistry_for H res r = Inl PanicNilDereference"
  using assms
proof (induction res arbitrary: r)
  case Nil
  then show ?case by simp
next
  case (Cons x res)
  obtain n s where x: "x = (n, s)" by (cases x)
  show ?case
  proof (cases "decodeSchema s")
    case (Inl e)
    then show ?thesis by (simp add: x)
  next
    case (Inr t)
    with Cons.prems x have "(name, sch) \<in> set res" by auto
    from Cons.IH[OF this Cons.prems(2)] Inr show ?thesis
      by (simp add: x split: prod.splits)
  qed
qed

lemma DecodeRegistry_fails:
  assumes "DeserializeRaw_registryEntities b = Inr res" "(name, sch) \<in> set res"
    "decodeSchema sch = Inl err"
  shows "DecodeRegistry H n b = Some (Inl PanicNilDereference)"
  using DecodeRegistry_for_fails[OF assms(2,3)] assms(1)
  by (simp add: DecodeRegistry_def)

definition two_entries :: "(gostring \<times> byte list) list" where
  "two_entries = [([65], bad_disc_bytes), ([66], odd_kind_bytes)]"

lemma decode_bad_disc: "decodeSchema bad_disc_bytes = Inl ErrInvalidEncodedSchema"
  by (simp add: decodeSchema.simps raw_bad_disc reference_types)

text \<open>
  C7. DecodeRegistry does not return the first decoding error. The loop assigns the error of
  decodeSchema and goes on: the failed call returns a nil Schema, and the next statement calls
  Reference on it, which panics with a nil dereference. For the two-entry registry below, whose
  first entry carries an invalid reference-type discriminator, the raw decoder reads both
  entries, decodeSchema refuses the first with ErrInvalidEncodedSchema, and DecodeRegistry
  panics instead of returning that error.
\<close>

theorem DecodeRegistry_nil_panic:
  "DeserializeRaw_registryEntities (Serialize_registryEntities two_entries) = Inr two_entries
   \<and> decodeSchema bad_disc_bytes = Inl ErrInvalidEncodedSchema
   \<and> DecodeRegistry H n (Serialize_registryEntities two_entries) = Some (Inl PanicNilDereference)"
proof -
  have d: "DeserializeRaw_registryEntities (Serialize_registryEntities two_entries) = Inr two_entries"
    by (rule DeserializeRaw_registryEntities_Serialize)
       (simp_all add: two_entries_def bad_disc_bytes_def odd_kind_bytes_def)
  have m: "([65], bad_disc_bytes) \<in> set two_entries"
    by (simp add: two_entries_def)
  show ?thesis
    using d decode_bad_disc DecodeRegistry_fails[OF d m decode_bad_disc] by simp
qed

subsection \<open>Registering a type under two names\<close>

lemma assign_keys: "fst ` set (assign k v m) = insert k (fst ` set m)"
  by (simp add: dom_map_of_conv_image_fst[symmetric] map_of_assign)

lemma assign_set: "set (assign k v m) \<subseteq> insert (k, v) (set m)"
  by (induction m) (auto split: if_split_asm)

lemma assign_vals: "snd ` set (assign k v m) \<subseteq> insert v (snd ` set m)"
  using assign_set[of k v m] by force

lemma assign_assign: "assign k v (assign k v' m) = assign k v m"
  by (induction m) auto

lemma register_for_keys:
  "register_for g ts r = Inr r' \<Longrightarrow> fst ` set (reg r') = fst ` set (reg r) \<union> snd ` set ts"
proof (induction ts arbitrary: r)
  case Nil
  then show ?case by simp
next
  case (Cons x ts)
  obtain ty nm where x: "x = (ty, nm)" by (cases x)
  from Cons.prems obtain s where s: "getSchema g ty = Inr s" "IsRegistered s"
    by (auto simp: x split: sum.splits if_splits)
  obtain a h where st: "store s (mem r) = (a, h)" by (cases "store s (mem r)")
  let ?r = "r\<lparr>nt := assign nm ty (nt r), reg := assign nm a (reg r), mem := h\<rparr>"
  from Cons.prems s st have "register_for g ts ?r = Inr r'" by (simp add: x)
  from Cons.IH[OF this] show ?case by (auto simp: x assign_keys)
qed

lemma finialize_srf_reg:
  "finialize_srf H n m r = Some (Inr r') \<Longrightarrow> reg r' = reg r"
proof (induction m arbitrary: r)
  case Nil
  then show ?case by simp
next
  case (Cons x m)
  obtain nm sch where x: "x = (nm, sch)" by (cases x)
  from Cons.prems obtain b where
    "finialize_srf H n m (r\<lparr>srf := assign (H b) sch (srf r)\<rparr>) = Some (Inr r')"
    by (auto simp: x bindO_def split: option.splits sum.splits)
  from Cons.IH[OF this] show ?case by simp
qed

lemma finialize_reg:
  assumes "finialize H n r = Some (Inr r')"
  shows "reg r' = reg r"
proof -
  from assms obtain h r1 encoded where
    a: "finialize_srf H n (reg r) (r\<lparr>mem := h\<rparr>) = Some (Inr r1)"
    and b: "r' = r1\<lparr>ref := H encoded\<rparr>"
    by (auto simp: finialize_def bindO_def split: option.splits sum.splits prod.splits)
  from finialize_srf_reg[OF a] b show ?thesis by simp
qed

lemma NewRegistry_names:
  assumes "cl newReg = Inr g" "NewRegistry H n cl = Some (Inr r)"
  shows "fst ` set (reg r) = snd ` set (tn g)"
proof -
  from assms obtain r0 where
    a: "register (newRegistry\<lparr>nt := []\<rparr>) g = Inr r0" and b: "finialize H n r0 = Some (Inr r)"
    by (auto simp: NewRegistry_def split: sum.splits)
  from a have "fst ` set (reg r0) = snd ` set (tn g)"
    unfolding register_def by (drule_tac register_for_keys) (simp add: newRegistry_def)
  with finialize_reg[OF b] show ?thesis by simp
qed

lemma SchemaByName_missing:
  assumes "name \<notin> fst ` set (reg r)"
  shows "SchemaByName r name = Inl (ErrMissingSchema name)"
proof -
  from assms have "map_of (reg r) name = None" by (simp add: map_of_eq_None_iff)
  then show ?thesis by (simp add: SchemaByName_def schemaByName_def)
qed

lemma SchemaByName_present:
  assumes "name \<in> fst ` set (reg r)"
  shows "\<exists>a. SchemaByName r name = Inr a"
proof -
  from assms have "map_of (reg r) name \<noteq> None" by (simp add: map_of_eq_None_iff)
  then show ?thesis by (auto simp: SchemaByName_def schemaByName_def)
qed

text \<open>
  C10.  \<^verbatim>\<open>Register\<close> called twice on the same \<^verbatim>\<open>Reg\<close> with an exemplar of the same type,
  under two distinct names that are not empty and not in use: neither call fails, the
  second replaces the name held for the type, and every \<^verbatim>\<open>Registry\<close> built from that
  \<^verbatim>\<open>Reg\<close> has a schema under the second name and none under the first, for which
  \<^verbatim>\<open>SchemaByName\<close> returns the missing-schema error.
\<close>

theorem Register_twice_replaces:
  assumes "n1 \<noteq> []" "n2 \<noteq> []" "n1 \<noteq> n2" "typeOf val = Inr T"
    "T \<noteq> typeOfRef" "T \<noteq> typeOfRefs" "T \<noteq> typeOfDynamic"
    "n1 \<notin> snd ` set (tn g)" "n2 \<notin> snd ` set (tn g)"
  shows "\<exists>g1 g2. Register g n1 val = Inr g1 \<and> Register g1 n2 val = Inr g2
     \<and> map_of (tn g1) T = Some n1 \<and> map_of (tn g2) T = Some n2
     \<and> (\<forall>H n cl r. cl newReg = Inr g2 \<longrightarrow> NewRegistry H n cl = Some (Inr r) \<longrightarrow>
           SchemaByName r n1 = Inl (ErrMissingSchema n1) \<and> (\<exists>a. SchemaByName r n2 = Inr a))"
proof -
  let ?g1 = "g\<lparr>tn := assign T n1 (tn g)\<rparr>"
  let ?g2 = "g\<lparr>tn := assign T n2 (tn g)\<rparr>"
  have r1: "Register g n1 val = Inr ?g1"
    using assms by (simp add: Register_def)
  have "n2 \<notin> snd ` set (tn ?g1)"
    using assign_vals[of T n1 "tn g"] assms(3,9) by auto
  then have r2: "Register ?g1 n2 val = Inr ?g2"
    using assms by (simp add: Register_def assign_assign)
  have n1: "n1 \<notin> snd ` set (tn ?g2)"
    using assign_vals[of T n2 "tn g"] assms(3,8) by auto
  have "map_of (tn ?g2) T = Some n2" by (simp add: map_of_assign)
  then have "(T, n2) \<in> set (tn ?g2)" by (rule map_of_SomeD)
  then have n2: "n2 \<in> snd ` set (tn ?g2)" by force
  have "SchemaByName r n1 = Inl (ErrMissingSchema n1) \<and> (\<exists>a. SchemaByName r n2 = Inr a)"
    if "cl newReg = Inr ?g2" "NewRegistry H n cl = Some (Inr r)" for H n cl r
    using NewRegistry_names[OF that] n1 n2 SchemaByName_missing[of n1 r] SchemaByName_present[of n2 r]
    by simp
  with r1 r2 show ?thesis
    by (intro exI[of _ ?g1] exI[of _ ?g2]) (simp add: map_of_assign)
qed

lemma NewRegistry_unit:
  "\<exists>r. NewRegistry id_digest (Suc (Suc (Suc 0))) (\<lambda>g. Inr \<lparr>tn = [(unit_type, [66])]\<rparr>) = Some (Inr r)"
  by (simp add: NewRegistry_def register_def newRegistry_def unit_type_def typeName_def
      IsRegistered_def finialize_def deref_def obj_IsRegistered_def Registry_Encode_def
      reflect_kinds)

text \<open>The empty struct type \<^verbatim>\<open>U\<close> registered as \<^verbatim>\<open>A\<close> and then as \<^verbatim>\<open>B\<close>.\<close>

theorem Register_twice_replaces_witness:
  "\<exists>r. Register newReg [65] (Val unit_type) = Inr \<lparr>tn = [(unit_type, [65])]\<rparr>
     \<and> Register \<lparr>tn = [(unit_type, [65])]\<rparr> [66] (Val unit_type) = Inr \<lparr>tn = [(unit_type, [66])]\<rparr>
     \<and> NewRegistry id_digest (Suc (Suc (Suc 0))) (\<lambda>g. Inr \<lparr>tn = [(unit_type, [66])]\<rparr>) = Some (Inr r)
     \<and> SchemaByName r [65] = Inl (ErrMissingSchema [65])
     \<and> (\<exists>a. SchemaByName r [66] = Inr a)"
proof -
  have a: "Register newReg [65] (Val unit_type) = Inr \<lparr>tn = [(unit_type, [65])]\<rparr>"
    by (simp add: Register_def newReg_def unit_type_def)
  have b: "Register \<lparr>tn = [(unit_type, [65])]\<rparr> [66] (Val unit_type) = Inr \<lparr>tn = [(unit_type, [66])]\<rparr>"
    by (simp add: Register_def unit_type_def)
  from NewRegistry_unit obtain r where
    r: "NewRegistry id_digest (Suc (Suc (Suc 0))) (\<lambda>g. Inr \<lparr>tn = [(unit_type, [66])]\<rparr>) = Some (Inr r)" ..
  from Register_twice_replaces[of "[65]" "[66]" "Val unit_type" unit_type newReg]
  obtain g1 g2 where g: "Register newReg [65] (Val unit_type) = Inr g1"
      "Register g1 [66] (Val unit_type) = Inr g2"
    and all: "\<And>H n cl r. cl newReg = Inr g2 \<Longrightarrow> NewRegistry H n cl = Some (Inr r) \<Longrightarrow>
           SchemaByName r [65] = Inl (ErrMissingSchema [65]) \<and> (\<exists>a. SchemaByName r [66] = Inr a)"
    by (auto simp: unit_type_def newReg_def)
  from g a b have "g2 = \<lparr>tn = [(unit_type, [66])]\<rparr>" by simp
  with all[of "\<lambda>g. Inr \<lparr>tn = [(unit_type, [66])]\<rparr>" id_digest "Suc (Suc (Suc 0))" r] r
  have "SchemaByName r [65] = Inl (ErrMissingSchema [65]) \<and> (\<exists>a. SchemaByName r [66] = Inr a)"
    by simp
  with a b r show ?thesis by blast
qed

subsection \<open>The resolution pass returns\<close>




text \<open>
  A run of the resolution pass that started from the store \<open>h\<close> and the visited set \<open>F\<close>
  has ended, in a panic or in a state; in a state, the store has as many objects as before and
  the visited set has lost none.
\<close>

definition fill_result_ok :: "heap \<Rightarrow> addr set \<Rightarrow> (error + fill_state) option \<Rightarrow> bool" where
  "fill_result_ok h F x \<longleftrightarrow>
     (\<exists>res. x = Some res)
     \<and> (\<forall>h' F'. x = Some (Inr (h', F')) \<longrightarrow> length h' = length h \<and> F \<subseteq> F')"

lemma fill_result_ok_simps [simp]:
  "fill_result_ok h F (Some (Inl e))"
  "fill_result_ok h F (Some (Inr (h', F'))) \<longleftrightarrow> length h' = length h \<and> F \<subseteq> F'"
  "\<not> fill_result_ok h F None"
  by (simp_all add: fill_result_ok_def)








subsection \<open>Two types that refer to each other\<close>




























subsection \<open>The order of registration and of the map\<close>



































end
